theory Spec2Isabelle
  imports Complex_Main "HOL-Library.Word" "HOL-Library.Log_Nat"
begin

section \<open>Python values, exceptions and dictionaries\<close>

text \<open>
  The exceptions that the backend raises itself (\<open>ValueError\<close>, \<open>FileNotFoundError\<close>,
  \<open>RuntimeError\<close>) and the ones Python or the libraries raise inside it
  (\<open>KeyError\<close> for a missing dictionary key, \<open>IndexError\<close>, \<open>ZeroDivisionError\<close>,
  \<open>OverflowError\<close> of float arithmetic, \<open>PermissionError\<close> of the file system,
  \<open>cv2.error\<close>). All of them are subclasses of \<open>Exception\<close>, and none of the others is
  a subclass of \<open>ValueError\<close> or of \<open>FileNotFoundError\<close>. A function that may raise
  returns \<open>exn + 'a\<close>, with \<open>Inl\<close> for the raised exception.
\<close>

datatype exn =
    ValueError string
  | FileNotFoundError string
  | KeyError string
  | IndexError string
  | ZeroDivisionError string
  | OverflowError string
  | PermissionError string
  | RuntimeError string
  | CvError string

text \<open>\<open>repr\<close> of a string without quotes, backslashes or unprintable characters (every
  name of the registries is one), and \<open>str\<close> of a list of such strings.\<close>

definition py_repr_str :: "string \<Rightarrow> string" where
  "py_repr_str s = [CHR 0x27] @ s @ [CHR 0x27]"

fun join :: "string \<Rightarrow> string list \<Rightarrow> string" where
  "join sep [] = []"
| "join sep [x] = x"
| "join sep (x # y # ys) = x @ sep @ join sep (y # ys)"

definition py_str_list :: "string list \<Rightarrow> string" where
  "py_str_list xs = ''['' @ join '', '' (map py_repr_str xs) @ '']''"

text \<open>\<open>str(e)\<close>: the message; for a \<open>KeyError\<close> the \<open>repr\<close> of the key.\<close>

fun exn_str :: "exn \<Rightarrow> string" where
  "exn_str (ValueError m) = m"
| "exn_str (FileNotFoundError m) = m"
| "exn_str (KeyError k) = py_repr_str k"
| "exn_str (IndexError m) = m"
| "exn_str (ZeroDivisionError m) = m"
| "exn_str (OverflowError m) = m"
| "exn_str (PermissionError m) = m"
| "exn_str (RuntimeError m) = m"
| "exn_str (CvError m) = m"

text \<open>A dictionary with string keys is an association list; \<open>d[k]\<close> raises \<open>KeyError\<close>
  on a missing key, \<open>k in d\<close> tests the keys.\<close>

definition dict_keys :: "(string \<times> 'v) list \<Rightarrow> string list" where
  "dict_keys d = map fst d"

definition py_in :: "string \<Rightarrow> (string \<times> 'v) list \<Rightarrow> bool" where
  "py_in k d = (k \<in> set (dict_keys d))"

definition py_getitem :: "(string \<times> 'v) list \<Rightarrow> string \<Rightarrow> exn + 'v" where
  "py_getitem d k = (case map_of d k of None \<Rightarrow> Inl (KeyError k) | Some v \<Rightarrow> Inr v)"

text \<open>Python's \<open>round\<close> on a float: to the nearest integer, a tie to the even one.\<close>

definition py_round :: "real \<Rightarrow> int" where
  "py_round x =
     (let f = \<lfloor>x\<rfloor>; d = x - of_int f in
      if d < 1 / 2 then f else if 1 / 2 < d then f + 1 else if even f then f else f + 1)"

text \<open>
  Binary floating point. \<open>binary_exponent x\<close> is the \<open>e\<close> with \<open>2^e \<le> x < 2^(e+1)\<close> for a
  positive \<open>x\<close>. \<open>round_binary p emin x\<close> is the number with a significand of \<open>p\<close> bits
  and an exponent of at least \<open>emin\<close> that is nearest to \<open>x\<close>, a tie going to the even
  significand; below \<open>2^emin\<close> the spacing stays that of the subnormal numbers. A Python
  float is binary64 (\<open>p = 53\<close>, \<open>emin = -1022\<close>), a numpy \<open>float32\<close> is binary32
  (\<open>p = 24\<close>, \<open>emin = -126\<close>).
\<close>

definition binary_exponent :: "real \<Rightarrow> int" where
  "binary_exponent x = (if 1 \<le> x then bitlen \<lfloor>x\<rfloor> - 1 else - bitlen (\<lceil>1 / x\<rceil> - 1))"

definition round_binary :: "nat \<Rightarrow> int \<Rightarrow> real \<Rightarrow> real" where
  "round_binary p emin x =
     (if x = 0 then 0
      else let e = max (binary_exponent \<bar>x\<bar>) emin;
               u = 2 powi (e - int p + 1)
           in u * of_int (py_round (x / u)))"

text \<open>
  The float that Python computes for the exact value \<open>x\<close>. Beyond the range of binary64
  the division of two integers and the conversion of an integer raise \<open>OverflowError\<close>;
  a product becomes infinite and \<open>round\<close> of it raises \<open>OverflowError\<close>.
\<close>

definition float64 :: "real \<Rightarrow> exn + real" where
  "float64 x =
     (let y = round_binary 53 (- 1022) x in
      if 2 ^ 1024 \<le> \<bar>y\<bar> then Inl (OverflowError ''float overflow'') else Inr y)"

text \<open>\<open>a / b\<close> on two integers, and \<open>int(round(d * scale))\<close> on an integer and a float.\<close>

definition py_truediv :: "int \<Rightarrow> int \<Rightarrow> exn + real" where
  "py_truediv a b =
     (if b = 0 then Inl (ZeroDivisionError ''division by zero'')
      else float64 (real_of_int a / real_of_int b))"

definition round_times :: "nat \<Rightarrow> real \<Rightarrow> exn + int" where
  "round_times d scale =
     (case float64 (real d) of
        Inl e \<Rightarrow> Inl e
      | Inr fd \<Rightarrow>
          (case float64 (fd * scale) of
             Inl e \<Rightarrow> Inl e
           | Inr x \<Rightarrow> Inr (py_round x)))"

section \<open>preprocessing.py\<close>

text \<open>
  A numpy array is its shape and its elements, read by index vector. A decoded image
  (\<open>cv2.IMREAD_UNCHANGED\<close>) is 8-bit or of another depth; the grayscale image that
  \<open>letterbox\<close> receives is a 2-dimensional 8-bit array.
\<close>

record 'a ndarray =
  shape :: "nat list"
  elem :: "nat list \<Rightarrow> 'a"

type_synonym uint8 = "8 word"

datatype decoded = UInt8 "uint8 ndarray" | OtherDepth "real ndarray"

record gray_image =
  height :: nat
  width :: nat
  pixel :: "nat \<Rightarrow> nat \<Rightarrow> uint8"

datatype interp = INTER_AREA | INTER_CUBIC

text \<open>
  OpenCV is outside the repository. The decoders, the min-max normalisation, the luma
  formula and the pixel values that interpolation and border reflection compute are
  parameters; the shapes of the arrays that \<open>cv2.resize\<close> and \<open>cv2.copyMakeBorder\<close>
  return, and the arguments they reject, are written out below.
\<close>

record cv2 =
  imread :: "string \<Rightarrow> decoded option"
  imdecode :: "uint8 list \<Rightarrow> decoded option"
  normalize_minmax :: "real ndarray \<Rightarrow> nat list \<Rightarrow> uint8"
  rgb2gray :: "uint8 \<Rightarrow> uint8 \<Rightarrow> uint8 \<Rightarrow> uint8"
  resize_px :: "gray_image \<Rightarrow> nat \<Rightarrow> nat \<Rightarrow> interp \<Rightarrow> nat \<Rightarrow> nat \<Rightarrow> uint8"
  reflect101_px :: "gray_image \<Rightarrow> nat \<Rightarrow> nat \<Rightarrow> nat \<Rightarrow> nat \<Rightarrow> nat \<Rightarrow> nat \<Rightarrow> uint8"

text \<open>The largest C \<open>int\<close>: sizes and borders are passed to OpenCV as C integers.\<close>

definition INT_MAX :: int where
  "INT_MAX = 2147483647"

text \<open>\<open>cv2.resize(src, (dw, dh), interpolation=interp)\<close>: an empty source, an empty
  target size and a target size beyond a C \<open>int\<close> are rejected (the binding raises before
  any pixel is computed; the one constructor \<open>CvError\<close> stands for what it raises); the
  result has \<open>dh\<close> rows and \<open>dw\<close> columns. Running out of memory is not modelled.\<close>

definition cv2_resize :: "cv2 \<Rightarrow> gray_image \<Rightarrow> int \<times> int \<Rightarrow> interp \<Rightarrow> exn + gray_image" where
  "cv2_resize cv src dsize interp =
     (case dsize of (dw, dh) \<Rightarrow>
        if height src = 0 \<or> width src = 0 \<or> dw \<le> 0 \<or> dh \<le> 0
           \<or> INT_MAX < dw \<or> INT_MAX < dh
        then Inl (CvError ''resize: empty source or bad target size'')
        else Inr \<lparr>height = nat dh, width = nat dw,
                  pixel = resize_px cv src (nat dw) (nat dh) interp\<rparr>)"

text \<open>\<open>cv2.copyMakeBorder(src, top, bottom, left, right, cv2.BORDER_REFLECT_101)\<close>: a
  negative border and a border beyond a C \<open>int\<close> are rejected; the result grows by the
  four borders.\<close>

definition cv2_copyMakeBorder ::
  "cv2 \<Rightarrow> gray_image \<Rightarrow> int \<Rightarrow> int \<Rightarrow> int \<Rightarrow> int \<Rightarrow> exn + gray_image" where
  "cv2_copyMakeBorder cv src t b l r =
     (if t < 0 \<or> b < 0 \<or> l < 0 \<or> r < 0
         \<or> INT_MAX < t \<or> INT_MAX < b \<or> INT_MAX < l \<or> INT_MAX < r
      then Inl (CvError ''copyMakeBorder: bad border'')
      else Inr \<lparr>height = height src + nat t + nat b,
                width = width src + nat l + nat r,
                pixel = reflect101_px cv src (nat t) (nat b) (nat l) (nat r)\<rparr>)"

text \<open>The local variables of \<open>letterbox\<close>, computed in the order of the source
  (\<open>top\<close>, \<open>bottom\<close>, \<open>left\<close> and \<open>right\<close> are \<open>pad_top\<close> to \<open>pad_right\<close>;
  the parameter \<open>size\<close> is \<open>sz\<close>, the float \<open>scale\<close> is \<open>sc\<close> until it is stored).\<close>

record letterbox_locals =
  scale :: real
  new_w :: int
  new_h :: int
  interp_of :: interp
  pad_w :: int
  pad_h :: int
  pad_top :: int
  pad_bottom :: int
  pad_left :: int
  pad_right :: int

definition letterbox_compute :: "nat \<Rightarrow> nat \<Rightarrow> int \<Rightarrow> exn + letterbox_locals" where
  "letterbox_compute h w sz =
     (case py_truediv sz (int (max h w)) of
        Inl e \<Rightarrow> Inl e
      | Inr sc \<Rightarrow>
          (case round_times w sc of
             Inl e \<Rightarrow> Inl e
           | Inr rw \<Rightarrow>
               (case round_times h sc of
                  Inl e \<Rightarrow> Inl e
                | Inr rh \<Rightarrow>
                    (let new_w = max 1 rw;
                         new_h = max 1 rh;
                         interp = (if sc < 1 then INTER_AREA else INTER_CUBIC);
                         pad_w = sz - new_w;
                         pad_h = sz - new_h
                     in Inr \<lparr>scale = sc, new_w = new_w, new_h = new_h,
                              interp_of = interp, pad_w = pad_w, pad_h = pad_h,
                              pad_top = pad_h div 2, pad_bottom = pad_h - pad_h div 2,
                              pad_left = pad_w div 2, pad_right = pad_w - pad_w div 2\<rparr>))))"

definition letterbox :: "cv2 \<Rightarrow> gray_image \<Rightarrow> int \<Rightarrow> string \<Rightarrow> exn + gray_image" where
  "letterbox cv gray sz pad_mode =
     (case letterbox_compute (height gray) (width gray) sz of
        Inl e \<Rightarrow> Inl e
      | Inr v \<Rightarrow>
          (case cv2_resize cv gray (new_w v, new_h v) (interp_of v) of
             Inl e \<Rightarrow> Inl e
           | Inr resized \<Rightarrow>
               if pad_mode = ''reflect''
               then cv2_copyMakeBorder cv resized (pad_top v) (pad_bottom v) (pad_left v) (pad_right v)
               else Inl (ValueError (''pad_mode must be 'reflect'' @ [CHR 0x27]))))"

text \<open>\<open>cv2.normalize(img, None, 0, 255, cv2.NORM_MINMAX).astype(np.uint8)\<close>.\<close>

definition normalize_to_uint8 :: "cv2 \<Rightarrow> real ndarray \<Rightarrow> uint8 ndarray" where
  "normalize_to_uint8 cv img = \<lparr>shape = shape img, elem = normalize_minmax cv img\<rparr>"

text \<open>\<open>cv2.cvtColor(img, cv2.COLOR_BGR2RGB)\<close> swaps channels 0 and 2;
  \<open>cv2.cvtColor(img_rgb, cv2.COLOR_RGB2GRAY)\<close> applies the luma formula to the red,
  green and blue channel of each pixel.\<close>

definition cvtColor_BGR2RGB :: "uint8 ndarray \<Rightarrow> uint8 ndarray" where
  "cvtColor_BGR2RGB img =
     \<lparr>shape = shape img,
      elem = (\<lambda>idx. case idx of [y, x, c] \<Rightarrow> elem img [y, x, 2 - c] | _ \<Rightarrow> elem img idx)\<rparr>"

definition cvtColor_RGB2GRAY :: "cv2 \<Rightarrow> uint8 ndarray \<Rightarrow> gray_image" where
  "cvtColor_RGB2GRAY cv img =
     \<lparr>height = shape img ! 0, width = shape img ! 1,
      pixel = (\<lambda>y x. rgb2gray cv (elem img [y, x, 0]) (elem img [y, x, 1]) (elem img [y, x, 2]))\<rparr>"

text \<open>A 2-dimensional array read as the grayscale image it is (\<open>gray = img\<close>).\<close>

definition as_gray :: "uint8 ndarray \<Rightarrow> gray_image" where
  "as_gray img =
     \<lparr>height = shape img ! 0, width = shape img ! 1, pixel = (\<lambda>y x. elem img [y, x])\<rparr>"

text \<open>The message of the shape error; the multiplication sign is two bytes in UTF-8.\<close>

definition shape_error_msg :: string where
  "shape_error_msg =
     ''Image must be H'' @ [CHR 0xC3, CHR 0x97] @ ''W or H'' @ [CHR 0xC3, CHR 0x97]
       @ ''W'' @ [CHR 0xC3, CHR 0x97] @ ''3''"

text \<open>The grayscale step of \<open>preprocess_image\<close> and of \<open>preprocess_image_from_bytes\<close>
  (the same lines in both).\<close>

definition to_grayscale :: "cv2 \<Rightarrow> uint8 ndarray \<Rightarrow> exn + gray_image" where
  "to_grayscale cv img =
     (if length (shape img) = 3 \<and> shape img ! 2 = 3 then
        (let img_rgb = cvtColor_BGR2RGB img in Inr (cvtColor_RGB2GRAY cv img_rgb))
      else if length (shape img) = 2 then Inr (as_gray img)
      else Inl (ValueError shape_error_msg))"

text \<open>\<open>np.stack([padded_gray] * 3, axis=2)\<close>, then
  \<open>(rgb.astype(np.float32) / 255.0).transpose(2, 0, 1)\<close>, then
  \<open>torch.from_numpy(rgb).unsqueeze(0)\<close>.\<close>

definition np_stack3 :: "gray_image \<Rightarrow> uint8 ndarray" where
  "np_stack3 g =
     \<lparr>shape = [height g, width g, 3],
      elem = (\<lambda>idx. case idx of [y, x, c] \<Rightarrow> pixel g y x | _ \<Rightarrow> 0)\<rparr>"

definition div255 :: "uint8 ndarray \<Rightarrow> real ndarray" where
  "div255 a =
     \<lparr>shape = shape a,
      elem = (\<lambda>idx. round_binary 24 (- 126) (real (unat (elem a idx)) / 255))\<rparr>"

definition transpose_201 :: "real ndarray \<Rightarrow> real ndarray" where
  "transpose_201 a =
     \<lparr>shape = [shape a ! 2, shape a ! 0, shape a ! 1],
      elem = (\<lambda>idx. case idx of [c, y, x] \<Rightarrow> elem a [y, x, c] | _ \<Rightarrow> 0)\<rparr>"

definition unsqueeze0 :: "real ndarray \<Rightarrow> real ndarray" where
  "unsqueeze0 a =
     \<lparr>shape = 1 # shape a,
      elem = (\<lambda>idx. case idx of b # rest \<Rightarrow> elem a rest | [] \<Rightarrow> 0)\<rparr>"

text \<open>Everything after the decoding, shared by the two entry points.\<close>

definition preprocess_decoded :: "cv2 \<Rightarrow> decoded \<Rightarrow> int \<Rightarrow> string \<Rightarrow> exn + real ndarray" where
  "preprocess_decoded cv img sz pad_mode =
     (let img8 = (case img of UInt8 a \<Rightarrow> a | OtherDepth a \<Rightarrow> normalize_to_uint8 cv a) in
      case to_grayscale cv img8 of
        Inl e \<Rightarrow> Inl e
      | Inr gray \<Rightarrow>
          (case letterbox cv gray sz pad_mode of
             Inl e \<Rightarrow> Inl e
           | Inr padded_gray \<Rightarrow>
               Inr (unsqueeze0 (transpose_201 (div255 (np_stack3 padded_gray))))))"

definition preprocess_image :: "cv2 \<Rightarrow> string \<Rightarrow> int \<Rightarrow> string \<Rightarrow> exn + real ndarray" where
  "preprocess_image cv image_path sz pad_mode =
     (case imread cv image_path of
        None \<Rightarrow> Inl (FileNotFoundError (''Cannot read image: '' @ image_path))
      | Some img \<Rightarrow> preprocess_decoded cv img sz pad_mode)"

text \<open>\<open>cv2.imdecode(nparr, cv2.IMREAD_UNCHANGED)\<close> raises on an empty buffer and returns
  \<open>None\<close> for bytes that are no image.\<close>

definition cv2_imdecode :: "cv2 \<Rightarrow> uint8 list \<Rightarrow> exn + decoded option" where
  "cv2_imdecode cv buf =
     (if buf = [] then Inl (CvError ''imdecode: empty buffer'') else Inr (imdecode cv buf))"

definition preprocess_image_from_bytes ::
  "cv2 \<Rightarrow> uint8 list \<Rightarrow> int \<Rightarrow> string \<Rightarrow> exn + real ndarray" where
  "preprocess_image_from_bytes cv image_bytes sz pad_mode =
     (case cv2_imdecode cv image_bytes of
        Inl e \<Rightarrow> Inl e
      | Inr None \<Rightarrow> Inl (ValueError ''Cannot decode image from bytes'')
      | Inr (Some img) \<Rightarrow> preprocess_decoded cv img sz pad_mode)"

section \<open>models.py and the libraries behind inference.py\<close>

text \<open>
  What \<open>torch.load\<close> returns: a dictionary with string keys (a state dict is one, a
  training checkpoint that wraps one is another) or some other object.
\<close>

datatype pyval =
    PyDict "(string \<times> pyval) list"
  | PyTensor "nat list"
  | PyInt int
  | PyStr string
  | PyNone

text \<open>
  A model object (\<open>torch.nn.Module\<close>): \<open>obj_id\<close> is the identity of the Python object,
  fresh at every construction; the other fields are what the constructor received, the
  state dict applied to it, the device it was moved to and its training flag.
\<close>

record model =
  obj_id :: nat
  arch :: string
  model_num_classes :: int
  model_dropout :: real
  model_img_size :: int
  state :: "pyval option"
  placed_on :: "string option"
  training :: bool

text \<open>A \<open>pathlib.Path\<close> is the list of its parts.\<close>

type_synonym path = "string list"

definition path_str :: "path \<Rightarrow> string" where
  "path_str ps =
     (case ps of
        [] \<Rightarrow> ''.''
      | p # rest \<Rightarrow> if p = ''/'' then ''/'' @ join ''/'' rest else join ''/'' ps)"

text \<open>
  The world outside the engine, fixed during one call: the file system (whether a path
  is on the disk, and the error of the operating system, if any, that a look at it
  meets), the constructors of torchvision and timm (which may raise), \<open>torch.load\<close>,
  the check of
  \<open>load_state_dict\<close> (\<open>RuntimeError\<close> on a key or shape mismatch), \<open>.to(device)\<close>, the
  forward pass (a batch of rows of logits, or an exception) and the clock (\<open>time_time n\<close>
  is what the \<open>n\<close>-th call of \<open>time.time()\<close> in a call of \<open>predict\<close> returns).
\<close>

record world =
  cuda_is_available :: bool
  on_disk :: "path \<Rightarrow> bool"
  stat_error :: "path \<Rightarrow> exn option"
  construct_error :: "string \<Rightarrow> int \<Rightarrow> real \<Rightarrow> int \<Rightarrow> exn option"
  torch_load :: "path \<Rightarrow> string \<Rightarrow> exn + pyval"
  state_dict_error :: "model \<Rightarrow> pyval \<Rightarrow> exn option"
  to_error :: "string \<Rightarrow> exn option"
  forward :: "model \<Rightarrow> real ndarray \<Rightarrow> exn + real list list"
  time_time :: "nat \<Rightarrow> real"

text \<open>\<open>Path.exists()\<close>: an error other than "not found", such as \<open>PermissionError\<close> for
  a directory that may not be searched, is raised.\<close>

definition Path_exists :: "world \<Rightarrow> path \<Rightarrow> exn + bool" where
  "Path_exists wd p = (case stat_error wd p of Some e \<Rightarrow> Inl e | None \<Rightarrow> Inr (on_disk wd p))"

definition models_dict_keys :: "string list" where
  "models_dict_keys =
     [''densenet121'', ''efficientnet-b2'', ''regnety-800mf'', ''efficientformerv2-s2'',
      ''mobilevit-s'']"

text \<open>\<open>get_model\<close> of models.py; \<open>oid\<close> is the identity of the object it constructs.\<close>

definition get_model :: "world \<Rightarrow> nat \<Rightarrow> string \<Rightarrow> int \<Rightarrow> real \<Rightarrow> int \<Rightarrow> exn + model" where
  "get_model wd oid model_name num_classes dropout img_size =
     (if model_name \<notin> set models_dict_keys
      then Inl (ValueError (''Model '' @ py_repr_str model_name @ '' not supported. ''
                  @ ''Available: '' @ py_str_list models_dict_keys))
      else
        (case construct_error wd model_name num_classes dropout img_size of
           Some e \<Rightarrow> Inl e
         | None \<Rightarrow>
             Inr \<lparr>obj_id = oid, arch = model_name, model_num_classes = num_classes,
                  model_dropout = dropout, model_img_size = img_size, state = None,
                  placed_on = None, training = True\<rparr>))"

section \<open>inference.py\<close>

record config_settings =
  image_size :: int
  learning_rate :: real
  loss :: string
  model_type :: string

definition CONFIG_SETTINGS :: "(string \<times> config_settings) list" where
  "CONFIG_SETTINGS =
     [(''config1'', \<lparr>image_size = 224, learning_rate = 1 / 10000, loss = ''focal'',
                     model_type = ''CNN''\<rparr>),
      (''config2'', \<lparr>image_size = 320, learning_rate = 3 / 10000, loss = ''focal'',
                     model_type = ''CNN''\<rparr>),
      (''config3'', \<lparr>image_size = 224, learning_rate = 1 / 10000, loss = ''focal'',
                     model_type = ''CNN-Transformer''\<rparr>),
      (''config4'', \<lparr>image_size = 224, learning_rate = 1 / 10000, loss = ''asymmetric'',
                     model_type = ''CNN+CNN-Transformer''\<rparr>)]"

definition MODEL_FILENAME_MAP :: "(string \<times> string) list" where
  "MODEL_FILENAME_MAP =
     [(''densenet121'', ''densenet121.pth''),
      (''efficientnet-b2'', ''efficientnet-b2.pth''),
      (''regnety-800mf'', ''regnety-800mf.pth''),
      (''efficientformerv2-s2'', ''efficientformerv2-s2.pth''),
      (''mobilevit-s'', ''mobilevit-s.pth'')]"

definition MODEL_CONFIG_COMPATIBILITY :: "(string \<times> string list) list" where
  "MODEL_CONFIG_COMPATIBILITY =
     [(''densenet121'', [''config1'', ''config2'', ''config4'']),
      (''efficientnet-b2'', [''config1'', ''config2'', ''config4'']),
      (''regnety-800mf'', [''config1'', ''config2'', ''config4'']),
      (''efficientformerv2-s2'', [''config3'', ''config4'']),
      (''mobilevit-s'', [''config3'', ''config4''])]"

text \<open>
  What the engine does to the weight store and to the model library, in order: a test
  whether a path exists, the construction of an architecture (with the identity of the
  new object), a read of a weight file, and the application of a state dict to an object.
\<close>

datatype event =
    PathExists path
  | Construct string nat
  | TorchLoad path
  | LoadStateDict nat pyval

text \<open>
  An instance of \<open>ModelInference\<close>. \<open>io_log\<close> and \<open>next_obj\<close> are not attributes of the
  Python object: they record the events above and the number of objects constructed so
  far.
\<close>

record engine =
  models_dir :: path
  device :: string
  num_classes :: int
  dropout :: real
  loaded_models :: "string \<Rightarrow> model option"
  io_log :: "event list"
  next_obj :: nat

definition log_event :: "event \<Rightarrow> engine \<Rightarrow> engine" where
  "log_event ev s = s\<lparr>io_log := io_log s @ [ev]\<rparr>"

definition ModelInference :: "world \<Rightarrow> path \<Rightarrow> string option \<Rightarrow> int \<Rightarrow> real \<Rightarrow> engine" where
  "ModelInference wd dir dev n_classes p_drop =
     \<lparr>models_dir = dir,
      device = (case dev of
                  Some d \<Rightarrow> if d \<noteq> [] then d
                            else if cuda_is_available wd then ''cuda'' else ''cpu''
                | None \<Rightarrow> if cuda_is_available wd then ''cuda'' else ''cpu''),
      num_classes = n_classes, dropout = p_drop, loaded_models = Map.empty,
      io_log = [], next_obj = 0\<rparr>"

definition get_model_path :: "world \<Rightarrow> engine \<Rightarrow> string \<Rightarrow> string \<Rightarrow> (exn + path) \<times> engine" where
  "get_model_path wd s model_name config =
     (if \<not> py_in config CONFIG_SETTINGS
      then (Inl (ValueError (''Config '' @ py_repr_str config @ '' not recognized. Available: ''
                   @ py_str_list (dict_keys CONFIG_SETTINGS))), s)
      else if \<not> py_in model_name MODEL_FILENAME_MAP
      then (Inl (ValueError (''Model '' @ py_repr_str model_name
                   @ '' not recognized. Available: ''
                   @ py_str_list (dict_keys MODEL_FILENAME_MAP))), s)
      else
        (case py_getitem MODEL_FILENAME_MAP model_name of
           Inl e \<Rightarrow> (Inl e, s)
         | Inr filename \<Rightarrow>
             (let model_path = models_dir s @ [config, filename];
                  s1 = log_event (PathExists model_path) s
              in case Path_exists wd model_path of
                   Inl e \<Rightarrow> (Inl e, s1)
                 | Inr False \<Rightarrow>
                     (Inl (FileNotFoundError
                         (''Model file not found: '' @ path_str model_path @ ''\<newline>''
                          @ ''Please ensure the model is trained and saved in the correct location.'')),
                      s1)
                 | Inr True \<Rightarrow> (Inr model_path, s1))))"

definition check_compatibility :: "string \<Rightarrow> string \<Rightarrow> exn + bool" where
  "check_compatibility model_name config =
     (if \<not> py_in model_name MODEL_CONFIG_COMPATIBILITY then Inr False
      else
        (case py_getitem MODEL_CONFIG_COMPATIBILITY model_name of
           Inl e \<Rightarrow> Inl e
         | Inr configs \<Rightarrow> Inr (config \<in> set configs)))"

text \<open>\<open>model.load_state_dict(sd)\<close>.\<close>

definition load_state_dict :: "world \<Rightarrow> engine \<Rightarrow> model \<Rightarrow> pyval \<Rightarrow> (exn + model) \<times> engine" where
  "load_state_dict wd s m sd =
     (let s1 = log_event (LoadStateDict (obj_id m) sd) s in
      case state_dict_error wd m sd of
        Some e \<Rightarrow> (Inl e, s1)
      | None \<Rightarrow> (Inr (m\<lparr>state := Some sd\<rparr>), s1))"

text \<open>The block of \<open>load_model\<close> that handles the checkpoint formats.\<close>

definition load_checkpoint :: "world \<Rightarrow> engine \<Rightarrow> model \<Rightarrow> pyval \<Rightarrow> (exn + model) \<times> engine" where
  "load_checkpoint wd s m checkpoint =
     (case checkpoint of
        PyDict d \<Rightarrow>
          if py_in ''model_state_dict'' d then
            (case py_getitem d ''model_state_dict'' of
               Inl e \<Rightarrow> (Inl e, s)
             | Inr sd \<Rightarrow> load_state_dict wd s m sd)
          else if py_in ''state_dict'' d then
            (case py_getitem d ''state_dict'' of
               Inl e \<Rightarrow> (Inl e, s)
             | Inr sd \<Rightarrow> load_state_dict wd s m sd)
          else load_state_dict wd s m checkpoint
      | _ \<Rightarrow> load_state_dict wd s m checkpoint)"

definition incompatible_msg :: "string \<Rightarrow> string \<Rightarrow> string list \<Rightarrow> string" where
  "incompatible_msg model_name config compatible_configs =
     ''Model '' @ py_repr_str model_name @ '' is not compatible with ''
       @ py_repr_str config @ ''.\<newline>''
       @ ''Compatible configs for '' @ model_name @ '': '' @ py_str_list compatible_configs
       @ ''\<newline>''
       @ ''Config types:\<newline>''
       @ ''  - config1: CNN models, 224x224, Focal Loss\<newline>''
       @ ''  - config2: CNN models, 320x320, Focal Loss\<newline>''
       @ ''  - config3: CNN-Transformer models, 224x224, Focal Loss\<newline>''
       @ ''  - config4: All models, 224x224, Asymmetric Loss''"

definition cache_key_of :: "string \<Rightarrow> string \<Rightarrow> string" where
  "cache_key_of model_name config = model_name @ ''_'' @ config"

definition load_model :: "world \<Rightarrow> engine \<Rightarrow> string \<Rightarrow> string \<Rightarrow> (exn + model) \<times> engine" where
  "load_model wd s model_name config =
     (let cache_key = cache_key_of model_name config in
      case loaded_models s cache_key of
        Some m \<Rightarrow> (Inr m, s)
      | None \<Rightarrow>
          if \<not> py_in config CONFIG_SETTINGS
          then (Inl (ValueError (''Invalid config '' @ py_repr_str config @ ''. Available: ''
                       @ py_str_list (dict_keys CONFIG_SETTINGS))), s)
          else if \<not> py_in model_name MODEL_FILENAME_MAP
          then (Inl (ValueError (''Invalid model '' @ py_repr_str model_name @ ''. Available: ''
                       @ py_str_list (dict_keys MODEL_FILENAME_MAP))), s)
          else
            (case check_compatibility model_name config of
               Inl e \<Rightarrow> (Inl e, s)
             | Inr False \<Rightarrow>
                 (let compatible_configs =
                        (case map_of MODEL_CONFIG_COMPATIBILITY model_name of
                           None \<Rightarrow> [] | Some cs \<Rightarrow> cs)
                  in (Inl (ValueError (incompatible_msg model_name config compatible_configs)), s))
             | Inr True \<Rightarrow>
                 (case get_model_path wd s model_name config of
                    (Inl e, s1) \<Rightarrow> (Inl e, s1)
                  | (Inr model_path, s1) \<Rightarrow>
                      (case py_getitem CONFIG_SETTINGS config of
                         Inl e \<Rightarrow> (Inl e, s1)
                       | Inr cfg \<Rightarrow>
                           (let img_size = image_size cfg;
                                oid = next_obj s1;
                                s2 = (log_event (Construct model_name oid) s1)
                                       \<lparr>next_obj := Suc oid\<rparr>
                            in case get_model wd oid model_name (num_classes s) (dropout s)
                                      img_size of
                                 Inl e \<Rightarrow> (Inl e, s2)
                               | Inr m0 \<Rightarrow>
                                   (let s3 = log_event (TorchLoad model_path) s2 in
                                    case torch_load wd model_path (device s) of
                                      Inl e \<Rightarrow> (Inl e, s3)
                                    | Inr checkpoint \<Rightarrow>
                                        (case load_checkpoint wd s3 m0 checkpoint of
                                           (Inl e, s4) \<Rightarrow> (Inl e, s4)
                                         | (Inr m1, s4) \<Rightarrow>
                                             (case to_error wd (device s) of
                                                Some e \<Rightarrow> (Inl e, s4)
                                              | None \<Rightarrow>
                                                  (let m2 = m1\<lparr>placed_on := Some (device s),
                                                                 training := False\<rparr>
                                                   in (Inr m2,
                                                       s4\<lparr>loaded_models :=
                                                            (loaded_models s4)
                                                              (cache_key \<mapsto> m2)\<rparr>))))))))))"

definition clear_cache :: "engine \<Rightarrow> engine" where
  "clear_cache s = s\<lparr>loaded_models := Map.empty\<rparr>"

text \<open>The result of \<open>predict\<close>: the dictionary it returns, \<open>error\<close> present on a failure
  only.\<close>

record prediction =
  disease :: string
  prob :: real

record outcome =
  success :: bool
  error :: "string option"
  results :: "prediction list"
  processing_time :: real
  out_model_name :: string
  out_config :: string
  out_image_size :: int
  out_device :: string

datatype image_input = ImagePath string | ImageBytes "uint8 list"

definition sigmoid :: "real \<Rightarrow> real" where
  "sigmoid x = 1 / (1 + exp (- x))"

text \<open>The handler of the load stage, \<open>except (ValueError, FileNotFoundError)\<close>.\<close>

fun caught_at_load :: "exn \<Rightarrow> bool" where
  "caught_at_load (ValueError m) = True"
| "caught_at_load (FileNotFoundError m) = True"
| "caught_at_load e = False"

definition predict ::
  "world \<Rightarrow> cv2 \<Rightarrow> engine \<Rightarrow> image_input \<Rightarrow> string \<Rightarrow> string \<Rightarrow> string list
     \<Rightarrow> (exn + outcome) \<times> engine" where
  "predict wd cv s image_input model_name config diseases =
     (let start_time = time_time wd 0 in
      case load_model wd s model_name config of
        (Inl e, s1) \<Rightarrow>
          if caught_at_load e
          then (Inr \<lparr>success = False, error = Some (exn_str e), results = [],
                     processing_time = 0, out_model_name = model_name, out_config = config,
                     out_image_size =
                       (case map_of CONFIG_SETTINGS config of
                          None \<Rightarrow> 0 | Some cfg \<Rightarrow> image_size cfg),
                     out_device = device s\<rparr>, s1)
          else (Inl e, s1)
      | (Inr m, s1) \<Rightarrow>
          (case py_getitem CONFIG_SETTINGS config of
             Inl e \<Rightarrow> (Inl e, s1)
           | Inr cfg \<Rightarrow>
               (let img_size = image_size cfg in
                case (case image_input of
                        ImagePath p \<Rightarrow> preprocess_image cv p img_size ''reflect''
                      | ImageBytes bs \<Rightarrow> preprocess_image_from_bytes cv bs img_size ''reflect'') of
                  Inl e \<Rightarrow>
                    (Inr \<lparr>success = False,
                          error = Some (''Image preprocessing failed: '' @ exn_str e),
                          results = [], processing_time = time_time wd 1 - start_time,
                          out_model_name = model_name, out_config = config,
                          out_image_size = img_size, out_device = device s\<rparr>, s1)
                | Inr image_tensor \<Rightarrow>
                    (case to_error wd (device s) of
                       Some e \<Rightarrow> (Inl e, s1)
                     | None \<Rightarrow>
                         (case forward wd m image_tensor of
                            Inl e \<Rightarrow>
                              (Inr \<lparr>success = False,
                                    error = Some (''Model inference failed: '' @ exn_str e),
                                    results = [],
                                    processing_time = time_time wd 1 - start_time,
                                    out_model_name = model_name, out_config = config,
                                    out_image_size = img_size, out_device = device s\<rparr>, s1)
                          | Inr logits \<Rightarrow>
                              (case logits of
                                 [] \<Rightarrow> (Inl (IndexError ''index 0 is out of bounds''), s1)
                               | row # _ \<Rightarrow>
                                   (let probs = map sigmoid row;
                                        results = map (\<lambda>(d, p). \<lparr>disease = d, prob = p\<rparr>)
                                                    (zip diseases probs)
                                    in (Inr \<lparr>success = True, error = None, results = results,
                                             processing_time = time_time wd 1 - start_time,
                                             out_model_name = model_name, out_config = config,
                                             out_image_size = img_size, out_device = device s\<rparr>,
                                        s1))))))))"

text \<open>The states an engine can be in: constructed, then any calls of its methods, each
  in a world of its own. \<open>check_compatibility\<close> and \<open>get_available_models\<close> only
  read the registries and the file system and leave the engine as it is; what the
  methods print is left out.\<close>

inductive reachable :: "engine \<Rightarrow> bool" where
  reach_init: "reachable (ModelInference wd dir dev n_classes p_drop)"
| reach_load: "reachable s \<Longrightarrow> reachable (snd (load_model wd s model_name config))"
| reach_predict:
    "reachable s \<Longrightarrow> reachable (snd (predict wd cv s image_input model_name config diseases))"
| reach_path: "reachable s \<Longrightarrow> reachable (snd (get_model_path wd s model_name config))"
| reach_clear: "reachable s \<Longrightarrow> reachable (clear_cache s)"

text \<open>A registered and compatible pair: the config is a key of \<open>CONFIG_SETTINGS\<close>, the
  model a key of \<open>MODEL_FILENAME_MAP\<close>, and \<open>check_compatibility\<close> returns true.\<close>

definition valid_pair :: "string \<Rightarrow> string \<Rightarrow> bool" where
  "valid_pair model_name config \<longleftrightarrow>
     py_in config CONFIG_SETTINGS \<and> py_in model_name MODEL_FILENAME_MAP
     \<and> check_compatibility model_name config = Inr True"

text \<open>
  The normalisation of a weight blob in the words of the specification, to be compared
  with \<open>load_checkpoint\<close>: the field \<open>model_state_dict\<close> of a mapping that has it, else
  the field \<open>state_dict\<close> of a mapping that has it, else the blob itself.
\<close>

definition normalize_checkpoint :: "pyval \<Rightarrow> pyval" where
  "normalize_checkpoint blob =
     (case blob of
        PyDict d \<Rightarrow>
          (case map_of d ''model_state_dict'' of
             Some sd \<Rightarrow> sd
           | None \<Rightarrow> (case map_of d ''state_dict'' of Some sd \<Rightarrow> sd | None \<Rightarrow> blob))
      | _ \<Rightarrow> blob)"

text \<open>Calls of the methods that keep the cache, one after the other on one engine.\<close>

datatype call =
    CallLoad world string string
  | CallPredict world cv2 image_input string string "string list"
  | CallPath world string string

fun run_call :: "engine \<Rightarrow> call \<Rightarrow> engine" where
  "run_call s (CallLoad wd model_name config) = snd (load_model wd s model_name config)"
| "run_call s (CallPredict wd cv image_input model_name config diseases) =
     snd (predict wd cv s image_input model_name config diseases)"
| "run_call s (CallPath wd model_name config) = snd (get_model_path wd s model_name config)"

definition run_calls :: "engine \<Rightarrow> call list \<Rightarrow> engine" where
  "run_calls s calls = foldl run_call s calls"

text \<open>The disease list of app.py.\<close>

definition DISEASES :: "string list" where
  "DISEASES =
     [''Atelectasis'', ''Edema'', ''Lung_Opacity'', ''Pleural_Effusion'', ''Pneumonia'',
      ''Pneumothorax'']"

text \<open>The invariant of the cache: every key is the key of a registered and compatible pair.\<close>

definition cache_ok :: "engine \<Rightarrow> bool" where
  "cache_ok s \<longleftrightarrow>
     (\<forall>key m. loaded_models s key = Some m \<longrightarrow>
        (\<exists>model_name config. key = cache_key_of model_name config \<and> valid_pair model_name config))"

section \<open>Concrete inputs\<close>

text \<open>A small OpenCV and small images, on which the theorems below are instantiated.\<close>

definition demo_cv2 :: cv2 where
  "demo_cv2 =
     \<lparr>imread = (\<lambda>p. None),
      imdecode = (\<lambda>bs. if bs = [] then None
                         else Some (UInt8 \<lparr>shape = [1, 1], elem = (\<lambda>idx. 0)\<rparr>)),
      normalize_minmax = (\<lambda>a idx. 0),
      rgb2gray = (\<lambda>r g b. g),
      resize_px = (\<lambda>src w h i y x. 0),
      reflect101_px = (\<lambda>src t b l r y x. 0)\<rparr>"

definition demo_gray :: gray_image where
  "demo_gray = \<lparr>height = 2, width = 4, pixel = (\<lambda>y x. 0)\<rparr>"

definition demo_color :: "uint8 ndarray" where
  "demo_color = \<lparr>shape = [384, 512, 3], elem = (\<lambda>idx. 0)\<rparr>"

definition demo_rgba :: "uint8 ndarray" where
  "demo_rgba = \<lparr>shape = [2, 2, 4], elem = (\<lambda>idx. 0)\<rparr>"

text \<open>
  A world with two weight files for densenet121: the one under config1 is a training
  checkpoint that wraps a state dict fitting the architecture, the one under config2
  holds parameters of another architecture. All other files are absent.
\<close>

definition demo_state_dict :: pyval where
  "demo_state_dict =
     PyDict [(''classifier.weight'', PyTensor [6, 1024]), (''classifier.bias'', PyTensor [6])]"

definition demo_checkpoint :: pyval where
  "demo_checkpoint = PyDict [(''epoch'', PyInt 3), (''model_state_dict'', demo_state_dict)]"

definition demo_world :: world where
  "demo_world =
     \<lparr>cuda_is_available = False,
      on_disk = (\<lambda>p. p = [''models'', ''config1'', ''densenet121.pth'']
                     \<or> p = [''models'', ''config2'', ''densenet121.pth'']),
      stat_error = (\<lambda>p. None),
      construct_error = (\<lambda>name n p sz. None),
      torch_load = (\<lambda>p dev. if p = [''models'', ''config1'', ''densenet121.pth'']
                              then Inr demo_checkpoint
                              else Inr (PyDict [(''fc.weight'', PyTensor [1000, 2048])])),
      state_dict_error = (\<lambda>m sd. if sd = demo_state_dict then None
                                   else Some (RuntimeError ''Error(s) in loading state_dict'')),
      to_error = (\<lambda>dev. None),
      forward = (\<lambda>m t. Inr [[0, 0, 0, 0, 0, 0]]),
      time_time = (\<lambda>n. real n)\<rparr>"

text \<open>The same world after the weight files were removed.\<close>

definition offline_world :: world where
  "offline_world = demo_world\<lparr>on_disk := (\<lambda>p. False)\<rparr>"

text \<open>The same world while the weight file under config1 holds the parameters of
  another architecture, and the same world while the directory of the weights may not
  be searched.\<close>

definition stale_world :: world where
  "stale_world =
     demo_world\<lparr>torch_load := (\<lambda>p dev. Inr (PyDict [(''fc.weight'', PyTensor [1000, 2048])]))\<rparr>"

definition locked_world :: world where
  "locked_world =
     offline_world\<lparr>stat_error := (\<lambda>p. Some (PermissionError ''[Errno 13] Permission denied''))\<rparr>"

definition demo_engine :: engine where
  "demo_engine = ModelInference demo_world [''models''] None 6 (3 / 10)"

definition cached_engine :: engine where
  "cached_engine = snd (load_model demo_world demo_engine ''densenet121'' ''config1'')"

text \<open>An engine on which a first load of densenet121 under config1 failed on the stale
  weights and a second one succeeded.\<close>

definition retried_engine :: engine where
  "retried_engine =
     run_calls demo_engine
       [CallLoad stale_world ''densenet121'' ''config1'',
        CallLoad demo_world ''densenet121'' ''config1'']"

text \<open>The model that loading densenet121 under config1 yields in that world.\<close>

definition demo_model :: model where
  "demo_model =
     \<lparr>obj_id = 0, arch = ''densenet121'', model_num_classes = 6, model_dropout = 3 / 10,
      model_img_size = 224, state = Some demo_state_dict, placed_on = Some ''cpu'',
      training = False\<rparr>"

section \<open>Rounding, scaling and padding\<close>

lemma py_round_bounds: "x - 1/2 \<le> of_int (py_round x) \<and> of_int (py_round x) \<le> x + 1/2"
  unfolding py_round_def Let_def by (auto; linarith)

lemma py_round_of_int: "py_round (of_int n) = n"
  by (simp add: py_round_def Let_def)

lemma py_round_le: assumes "x \<le> of_int n" shows "py_round x \<le> n"
proof -
  have "of_int (py_round x) \<le> x + 1/2" using py_round_bounds by blast
  then have "real_of_int (py_round x) < of_int n + 1" using assms by linarith
  then show ?thesis by linarith
qed

lemma py_round_ge: assumes "of_int n \<le> x" shows "n \<le> py_round x"
proof -
  have "x - 1/2 \<le> of_int (py_round x)" using py_round_bounds by blast
  then have "real_of_int n - 1 < of_int (py_round x)" using assms by linarith
  then show ?thesis by linarith
qed

lemma binary_exponent_bounds:
  assumes "0 < x"
  shows "2 powi (binary_exponent x) \<le> x" and "x < 2 powi (binary_exponent x + 1)"
proof -
  have "2 powi (binary_exponent x) \<le> x \<and> x < 2 powi (binary_exponent x + 1)"
  proof (cases "1 \<le> x")
    case True
    define n where "n = \<lfloor>x\<rfloor>"
    have n: "0 < n" "of_int n \<le> x" "x < of_int n + 1" using True by (auto simp: n_def; linarith)+
    from bitlen_bounds[OF n(1)] have b: "2 ^ nat (bitlen n - 1) \<le> n" "n < 2 ^ nat (bitlen n)" by auto
    have b1: "1 \<le> bitlen n" using n(1) by (simp add: bitlen_alt_def)
    have e: "binary_exponent x = bitlen n - 1" using True by (simp add: binary_exponent_def n_def)
    have "(2::real) powi (bitlen n - 1) = 2 ^ nat (bitlen n - 1)"
      using b1 by (simp add: power_int_nonneg_exp)
    also have "\<dots> = of_int (2 ^ nat (bitlen n - 1))" by simp
    also have "\<dots> \<le> of_int n" using b(1) by (simp only: of_int_le_iff)
    finally have lo: "2 powi (bitlen n - 1) \<le> x" using n(2) by linarith
    have "n + 1 \<le> 2 ^ nat (bitlen n)" using b(2) by linarith
    then have "real_of_int (n + 1) \<le> of_int (2 ^ nat (bitlen n))" by (simp only: of_int_le_iff)
    then have "x < 2 ^ nat (bitlen n)" using n(3) by simp
    moreover have "(2::real) powi (bitlen n - 1 + 1) = 2 ^ nat (bitlen n)"
      using b1 by (simp add: power_int_nonneg_exp)
    ultimately have hi: "x < 2 powi (bitlen n - 1 + 1)" by simp
    show ?thesis unfolding e using lo hi by blast
  next
    case False
    define y where "y = 1 / x"
    define n where "n = \<lceil>y\<rceil> - 1"
    have y1: "1 < y" using assms False by (simp add: y_def)
    have n: "0 < n" "of_int n < y" "y \<le> of_int n + 1"
      using y1 by (auto simp: n_def; linarith)+
    from bitlen_bounds[OF n(1)] have b: "2 ^ nat (bitlen n - 1) \<le> n" "n < 2 ^ nat (bitlen n)" by auto
    have b1: "1 \<le> bitlen n" using n(1) by (simp add: bitlen_alt_def)
    have e: "binary_exponent x = - bitlen n" using False by (simp add: binary_exponent_def n_def y_def)
    have x: "x = 1 / y" using assms by (simp add: y_def)
    have "n + 1 \<le> 2 ^ nat (bitlen n)" using b(2) by linarith
    then have "real_of_int (n + 1) \<le> of_int (2 ^ nat (bitlen n))" by (simp only: of_int_le_iff)
    then have yhi: "y \<le> 2 ^ nat (bitlen n)" using n(3) by simp
    have "real_of_int (2 ^ nat (bitlen n - 1)) \<le> of_int n" using b(1) by (simp only: of_int_le_iff)
    then have "(2::real) ^ nat (bitlen n - 1) \<le> of_int n" by simp
    then have ylo: "2 ^ nat (bitlen n - 1) < y" using n(2) by linarith
    have p1: "(2::real) powi (- bitlen n) = 1 / 2 ^ nat (bitlen n)"
      using b1 by (simp add: power_int_minus power_int_nonneg_exp inverse_eq_divide)
    have p2: "(2::real) powi (- bitlen n + 1) = 1 / 2 ^ nat (bitlen n - 1)"
    proof -
      have "- bitlen n + 1 = - (bitlen n - 1)" by simp
      then show ?thesis using b1
        by (simp only: power_int_minus) (simp add: power_int_nonneg_exp inverse_eq_divide)
    qed
    have lo: "1 / 2 ^ nat (bitlen n) \<le> 1 / y"
      using yhi y1 by (intro divide_left_mono) auto
    have hi: "1 / y < 1 / 2 ^ nat (bitlen n - 1)"
      using ylo y1 by (intro divide_strict_left_mono mult_pos_pos) auto
    have "2 powi (- bitlen n) \<le> x \<and> x < 2 powi (- bitlen n + 1)"
      using lo hi by (simp only: p1 p2 x)
    then show ?thesis by (simp only: e)
  qed
  then show "2 powi (binary_exponent x) \<le> x" and "x < 2 powi (binary_exponent x + 1)" by blast+
qed

lemma round_binary_error:
  assumes "2 powi emin \<le> \<bar>x\<bar>"
  shows "\<bar>round_binary p emin x - x\<bar> \<le> \<bar>x\<bar> / 2 ^ p"
proof -
  have x0: "0 < \<bar>x\<bar>" using assms zero_less_power_int[of "2::real" emin] by linarith
  then have xn: "x \<noteq> 0" by auto
  define e where "e = binary_exponent \<bar>x\<bar>"
  define u :: real where "u = 2 powi (max e emin - int p + 1)"
  have eb: "2 powi e \<le> \<bar>x\<bar>" "\<bar>x\<bar> < 2 powi (e + 1)"
    unfolding e_def using binary_exponent_bounds[OF x0] by auto
  have "(2::real) powi emin < 2 powi (e + 1)" using assms eb(2) by linarith
  have "emin < e + 1"
  proof (rule ccontr)
    assume "\<not> emin < e + 1"
    then have "e + 1 \<le> emin" by simp
    then have "(2::real) powi (e + 1) \<le> 2 powi emin" by (intro power_int_increasing) auto
    with \<open>(2::real) powi emin < 2 powi (e + 1)\<close> show False by linarith
  qed
  then have m: "max e emin = e" by simp
  have up: "0 < u" by (simp add: u_def)
  have r: "round_binary p emin x = u * of_int (py_round (x / u))"
    using xn by (simp add: round_binary_def Let_def e_def u_def)
  have "\<bar>of_int (py_round (x / u)) - x / u\<bar> \<le> 1 / 2"
    using py_round_bounds[of "x / u"] by linarith
  then have "u * \<bar>of_int (py_round (x / u)) - x / u\<bar> \<le> u * (1 / 2)"
    using up by (intro mult_left_mono) auto
  moreover have "u * \<bar>of_int (py_round (x / u)) - x / u\<bar> = \<bar>u * of_int (py_round (x / u)) - x\<bar>"
  proof -
    have "\<bar>u * of_int (py_round (x / u)) - x\<bar> = \<bar>u * (of_int (py_round (x / u)) - x / u)\<bar>"
      using up by (simp add: right_diff_distrib)
    also have "\<dots> = u * \<bar>of_int (py_round (x / u)) - x / u\<bar>"
      using up by (simp add: abs_mult)
    finally show ?thesis by simp
  qed
  ultimately have d: "\<bar>round_binary p emin x - x\<bar> \<le> u / 2" unfolding r by simp
  have "u = 2 powi e / 2 ^ p * 2"
  proof -
    have "u = 2 powi (e - int p + 1)" by (simp add: u_def m)
    also have "\<dots> = 2 powi (e - int p) * 2" by (simp add: power_int_add)
    also have "\<dots> = 2 powi e / 2 powi (int p) * 2" by (simp add: power_int_diff)
    finally show ?thesis by simp
  qed
  then have "u / 2 = 2 powi e / 2 ^ p" by simp
  also have "\<dots> \<le> \<bar>x\<bar> / 2 ^ p" using eb(1) by (simp add: divide_right_mono)
  finally show ?thesis using d by linarith
qed

lemma round_binary_unit:
  assumes "0 \<le> x" "x \<le> 1" "1 \<le> p" "emin \<le> 0"
  shows "0 \<le> round_binary p emin x" "round_binary p emin x \<le> 1"
proof -
  have "0 \<le> round_binary p emin x \<and> round_binary p emin x \<le> 1"
  proof (cases "x = 0")
    case True
    then show ?thesis by (simp add: round_binary_def)
  next
    case False
    then have x0: "0 < x" using assms(1) by simp
    define e where "e = binary_exponent \<bar>x\<bar>"
    define j where "j = max e emin - int p + 1"
    define u :: real where "u = 2 powi j"
    have eb: "2 powi e \<le> x" unfolding e_def using binary_exponent_bounds(1)[of "\<bar>x\<bar>"] x0 by simp
    have "e \<le> 0"
    proof (rule ccontr)
      assume "\<not> e \<le> 0"
      then have "1 \<le> e" by simp
      then have "(2::real) powi 1 \<le> 2 powi e" by (intro power_int_increasing) auto
      then show False using eb assms(2) by simp
    qed
    then have j0: "j \<le> 0" using assms(3,4) by (simp add: j_def)
    have up: "0 < u" by (simp add: u_def)
    have iu: "1 / u = of_int (2 ^ nat (- j))"
    proof -
      have "u = 2 powi (- (- j))" by (simp add: u_def)
      also have "\<dots> = inverse (2 powi (- j))" by (simp only: power_int_minus)
      also have "\<dots> = inverse (2 ^ nat (- j))" using j0 by (simp add: power_int_nonneg_exp)
      finally show ?thesis by (simp add: inverse_eq_divide)
    qed
    have r: "round_binary p emin x = u * of_int (py_round (x / u))"
      using False by (simp add: round_binary_def Let_def e_def u_def j_def)
    have "x / u \<le> 1 / u" using assms(2) up by (simp add: divide_right_mono)
    then have "x / u \<le> of_int (2 ^ nat (- j))" using iu by simp
    then have "py_round (x / u) \<le> 2 ^ nat (- j)" by (rule py_round_le)
    then have "real_of_int (py_round (x / u)) \<le> of_int (2 ^ nat (- j))" by (simp only: of_int_le_iff)
    then have "real_of_int (py_round (x / u)) \<le> 1 / u" using iu by simp
    then have "u * real_of_int (py_round (x / u)) \<le> u * (1 / u)"
      using up by (intro mult_left_mono) auto
    then have hi: "round_binary p emin x \<le> 1" using up by (simp add: r)
    have "of_int 0 \<le> x / u" using x0 up by simp
    then have "0 \<le> py_round (x / u)" by (rule py_round_ge)
    then have lo: "0 \<le> round_binary p emin x" using up by (simp add: r)
    show ?thesis using lo hi by blast
  qed
  then show "0 \<le> round_binary p emin x" "round_binary p emin x \<le> 1" by blast+
qed

lemma float64_in_range:
  assumes "2 powi (- 1022) \<le> x" "x \<le> 2 ^ 64"
  shows "\<exists>y. float64 x = Inr y \<and> \<bar>y - x\<bar> \<le> x / 2 ^ 53 \<and> 0 < y"
proof -
  have x0: "0 < x" using assms(1) zero_less_power_int[of "2::real" "- 1022"] by linarith
  define y where "y = round_binary 53 (- 1022) x"
  have e: "\<bar>y - x\<bar> \<le> x / 2 ^ 53"
    using round_binary_error[of "- 1022" x 53] assms(1) x0 by (simp add: y_def)
  have "x / 2 ^ 53 \<le> x / 2" using x0 by (intro divide_left_mono) auto
  with e have h: "\<bar>y - x\<bar> \<le> x / 2" by linarith
  have b: "x / 2 \<le> y" "y \<le> 2 * x" using h x0 by linarith+
  have "(2::real) * 2 ^ 64 = 2 ^ 65" by simp
  then have "\<bar>y\<bar> \<le> 2 ^ 65" using assms(2) x0 b by linarith
  moreover have "(2::real) ^ 65 < 2 ^ 1024" by (intro power_strict_increasing) auto
  ultimately have "\<not> 2 ^ 1024 \<le> \<bar>y\<bar>" by linarith
  then have "float64 x = Inr y" by (simp add: float64_def y_def Let_def)
  moreover have "0 < y" using b x0 by linarith
  ultimately show ?thesis using e by blast
qed

lemma round_times_close:
  fixes d m :: nat and sz :: int
  assumes d: "1 \<le> d" "d \<le> m" and m: "m < 2 ^ 31" and sz: "1 \<le> sz" "sz < 2 ^ 31"
    and scb: "\<bar>sc - real_of_int sz / real m\<bar> \<le> real_of_int sz / real m / 2 ^ 53"
  shows "\<exists>r. round_times d sc = Inr r
           \<and> \<bar>real_of_int r - real d * sc\<bar> \<le> 1 / 2 + 1 / 2 ^ 19
           \<and> 0 \<le> r \<and> r \<le> sz \<and> (d = m \<longrightarrow> r = sz)"
proof -
  define q where "q = real_of_int sz / real m"
  define X where "X = real d * q"
  define Y where "Y = real d * sc"
  have m0: "0 < real m" using d by simp
  have d0: "1 \<le> real d" using d by simp
  have q0: "0 < q" using sz m0 by (simp add: q_def)
  have X0: "0 < X" using d0 q0 by (simp add: X_def)
  have "real d / real m \<le> 1" using d m0 by simp
  then have "real_of_int sz * (real d / real m) \<le> real_of_int sz * 1"
    using sz by (intro mult_left_mono) auto
  then have Xsz: "X \<le> real_of_int sz" by (simp add: X_def q_def mult.commute)
  have szr: "real_of_int sz \<le> 2 ^ 31" using sz(2) by (metis of_int_le_iff of_int_numeral of_int_power less_imp_le)
  have X31: "X \<le> 2 ^ 31" using Xsz szr by linarith
  have qlo: "1 / 2 ^ 31 \<le> q"
  proof -
    have "real m \<le> 2 ^ 31" using m by (metis of_nat_le_iff of_nat_numeral of_nat_power less_imp_le)
    then have "1 / 2 ^ 31 \<le> 1 / real m" using m0 by (intro divide_left_mono) auto
    also have "\<dots> \<le> real_of_int sz / real m" using sz m0 by (intro divide_right_mono) auto
    finally show ?thesis by (simp add: q_def)
  qed
  have Xlo: "1 / 2 ^ 31 \<le> X"
  proof -
    have "1 * q \<le> real d * q" using d0 q0 by (intro mult_right_mono) auto
    then have "q \<le> X" by (simp add: X_def)
    with qlo show ?thesis by linarith
  qed
  have scq: "\<bar>sc - q\<bar> \<le> q / 2 ^ 53" using scb by (simp add: q_def)
  have YX: "\<bar>Y - X\<bar> \<le> X / 2 ^ 53"
  proof -
    have "\<bar>Y - X\<bar> = real d * \<bar>sc - q\<bar>"
      by (simp add: Y_def X_def right_diff_distrib[symmetric] abs_mult)
    also have "\<dots> \<le> real d * (q / 2 ^ 53)" using scq d0 by (intro mult_left_mono) auto
    finally show ?thesis by (simp add: X_def)
  qed
  have "X / 2 ^ 53 \<le> X / 2" using X0 by (intro divide_left_mono) auto
  with YX have Yb: "X / 2 \<le> Y" "Y \<le> 2 * X" by linarith+
  have Y0: "0 < Y" using Yb X0 by linarith
  have s0: "0 < sc" using Y0 d0 by (simp add: Y_def zero_less_mult_iff)
  \<comment> \<open>the conversion of d\<close>
  have "2 powi (- 1022) \<le> (1::real)" by (simp add: power_int_minus inverse_eq_divide)
  then have dlo: "2 powi (- 1022) \<le> real d" using d0 by linarith
  have dhi: "real d \<le> 2 ^ 64"
  proof -
    have "real d \<le> 2 ^ 31" using d m by (metis of_nat_le_iff of_nat_numeral of_nat_power less_imp_le order_trans)
    moreover have "(2::real) ^ 31 \<le> 2 ^ 64" by (intro power_increasing) auto
    ultimately show ?thesis by linarith
  qed
  from float64_in_range[OF dlo dhi] obtain fd where
    fd: "float64 (real d) = Inr fd" "\<bar>fd - real d\<bar> \<le> real d / 2 ^ 53" "0 < fd" by blast
  define P where "P = fd * sc"
  have PY: "\<bar>P - Y\<bar> \<le> Y / 2 ^ 53"
  proof -
    have "\<bar>P - Y\<bar> = \<bar>fd - real d\<bar> * sc"
      using s0 by (simp add: P_def Y_def left_diff_distrib[symmetric] abs_mult)
    also have "\<dots> \<le> real d / 2 ^ 53 * sc" using fd(2) s0 by (intro mult_right_mono) auto
    finally show ?thesis by (simp add: Y_def)
  qed
  have "Y / 2 ^ 53 \<le> Y / 2" using Y0 by (intro divide_left_mono) auto
  with PY have Pb: "Y / 2 \<le> P" "P \<le> 2 * Y" by linarith+
  have Plo: "2 powi (- 1022) \<le> P"
  proof -
    have "(2::real) powi (- 1022) \<le> 2 powi (- 33)" by (intro power_int_increasing) auto
    also have "\<dots> = 1 / 2 ^ 33" by (simp add: power_int_minus inverse_eq_divide)
    also have "\<dots> = 1 / 2 ^ 31 / 4" by simp
    also have "\<dots> \<le> X / 4" using Xlo by simp
    also have "\<dots> \<le> P" using Pb Yb by linarith
    finally show ?thesis .
  qed
  have Phi: "P \<le> 2 ^ 64"
  proof -
    have "P \<le> 4 * X" using Pb Yb by linarith
    also have "\<dots> \<le> 4 * 2 ^ 31" using X31 by simp
    also have "\<dots> \<le> (2::real) ^ 64" by simp
    finally show ?thesis .
  qed
  from float64_in_range[OF Plo Phi] obtain x' where
    x': "float64 (fd * sc) = Inr x'" "\<bar>x' - P\<bar> \<le> P / 2 ^ 53" "0 < x'"
    unfolding P_def by blast
  have rt: "round_times d sc = Inr (py_round x')"
    by (simp add: round_times_def fd(1) x'(1))
  have n53: "(2::real) ^ 53 = 9007199254740992" by simp
  have xY: "\<bar>x' - Y\<bar> \<le> 3 * Y / 2 ^ 53"
    using x'(2)[unfolded n53] PY[unfolded n53] Pb unfolding n53 by linarith
  define a where "a = (3::real) / 2 ^ 21"
  define b where "b = (1::real) / 2 ^ 22"
  define c where "c = (1::real) / 2 ^ 19"
  have abc: "a + b \<le> c" "c < 1 / 2" "a \<le> c" by (simp_all add: a_def b_def c_def)
  have "3 * Y / 2 ^ 53 \<le> 3 * (2 * X) / 2 ^ 53" using Yb by (intro divide_right_mono) auto
  also have "\<dots> \<le> 3 * (2 * 2 ^ 31) / 2 ^ 53" using X31 by (intro divide_right_mono) auto
  also have "\<dots> = a" by (simp add: a_def)
  finally have xY': "\<bar>x' - Y\<bar> \<le> a" using xY by linarith
  have "X / 2 ^ 53 \<le> 2 ^ 31 / 2 ^ 53" using X31 by (intro divide_right_mono) auto
  also have "\<dots> = b" by (simp add: b_def)
  finally have "\<bar>Y - X\<bar> \<le> b" using YX by linarith
  with xY' abc have xX: "\<bar>x' - X\<bar> \<le> c" by linarith
  have rb: "x' - 1 / 2 \<le> of_int (py_round x')" "of_int (py_round x') \<le> x' + 1 / 2"
    using py_round_bounds[of x'] by blast+
  have "\<bar>real_of_int (py_round x') - Y\<bar> \<le> 1 / 2 + c"
    using rb xY' abc by linarith
  then have c1: "\<bar>real_of_int (py_round x') - real d * sc\<bar> \<le> 1 / 2 + 1 / 2 ^ 19"
    by (simp only: Y_def c_def)
  have "real_of_int (py_round x') > - 1" using rb(1) x'(3) by linarith
  then have c2: "0 \<le> py_round x'" by linarith
  have "real_of_int (py_round x') < real_of_int sz + 1" using rb(2) xX Xsz abc by linarith
  then have c3: "py_round x' \<le> sz" by linarith
  have c4: "d = m \<longrightarrow> py_round x' = sz"
  proof
    assume "d = m"
    then have "X = real_of_int sz" using m0 by (simp add: X_def q_def)
    then have "real_of_int (py_round x') > real_of_int sz - 1" using rb(1) xX abc by linarith
    then have "sz \<le> py_round x'" by linarith
    with c3 show "py_round x' = sz" by simp
  qed
  show ?thesis using rt c1 c2 c3 c4 by blast
qed

lemma pad_split:
  fixes p :: int
  assumes "0 \<le> p"
  shows "0 \<le> p div 2" "p div 2 + (p - p div 2) = p"
    "p - p div 2 = p div 2 \<or> p - p div 2 = p div 2 + 1" "0 \<le> p - p div 2"
  using assms by presburger+

lemma clamp_close:
  assumes "\<bar>real_of_int r - y\<bar> \<le> 1 / 2 + 1 / 2 ^ 19" "0 \<le> r" "0 < y"
  shows "\<bar>real_of_int (max 1 r) - y\<bar> < 1"
proof (cases "1 \<le> r")
  case True
  then have "max 1 r = r" by simp
  moreover have "(1::real) / 2 + 1 / 2 ^ 19 < 1" by simp
  ultimately show ?thesis using assms(1) by simp
next
  case False
  then have r: "r = 0" using assms(2) by simp
  have "(1::real) / 2 + 1 / 2 ^ 19 < 1" by simp
  then have "y < 1" using assms(1) r by simp
  then show ?thesis using assms(3) r by simp
qed

lemma letterbox_compute_ok:
  assumes "1 \<le> h" "h < 2 ^ 31" "1 \<le> w" "w < 2 ^ 31" "1 \<le> sz" "sz < 2 ^ 31"
  shows "\<exists>v. letterbox_compute h w sz = Inr v
      \<and> py_truediv sz (int (max h w)) = Inr (scale v)
      \<and> \<bar>scale v - real_of_int sz / real (max h w)\<bar> \<le> real_of_int sz / real (max h w) / 2 ^ 53
      \<and> (h \<le> w \<longrightarrow> new_w v = sz) \<and> (w \<le> h \<longrightarrow> new_h v = sz)
      \<and> 1 \<le> new_w v \<and> new_w v \<le> sz \<and> 1 \<le> new_h v \<and> new_h v \<le> sz
      \<and> \<bar>real_of_int (new_w v) - real w * scale v\<bar> < 1
      \<and> \<bar>real_of_int (new_h v) - real h * scale v\<bar> < 1
      \<and> pad_top v + pad_bottom v = sz - new_h v
      \<and> (pad_bottom v = pad_top v \<or> pad_bottom v = pad_top v + 1) \<and> 0 \<le> pad_top v
      \<and> pad_left v + pad_right v = sz - new_w v
      \<and> (pad_right v = pad_left v \<or> pad_right v = pad_left v + 1) \<and> 0 \<le> pad_left v"
proof -
  define m where "m = max h w"
  define q where "q = real_of_int sz / real m"
  have m: "1 \<le> m" "w \<le> m" "h \<le> m" "m < 2 ^ 31" using assms by (auto simp: m_def)
  have m0: "0 < real m" using m(1) by simp
  have szr: "real_of_int sz \<le> 2 ^ 31"
    using assms(6) by (metis of_int_le_iff of_int_numeral of_int_power less_imp_le)
  have mr: "real m \<le> 2 ^ 31"
    using m(4) by (metis of_nat_le_iff of_nat_numeral of_nat_power less_imp_le)
  have qlo: "2 powi (- 1022) \<le> q"
  proof -
    have "(2::real) powi (- 1022) \<le> 2 powi (- 31)" by (intro power_int_increasing) auto
    also have "\<dots> = 1 / 2 ^ 31" by (simp add: power_int_minus inverse_eq_divide)
    also have "\<dots> \<le> 1 / real m" using mr m0 by (intro divide_left_mono) auto
    also have "\<dots> \<le> q" unfolding q_def using assms(5) m0 by (intro divide_right_mono) auto
    finally show ?thesis .
  qed
  have qhi: "q \<le> 2 ^ 64"
  proof -
    have "q \<le> real_of_int sz / 1" unfolding q_def using assms(5) m(1)
      by (intro divide_left_mono) auto
    also have "\<dots> \<le> 2 ^ 31" using szr by simp
    also have "\<dots> \<le> (2::real) ^ 64" by (intro power_increasing) auto
    finally show ?thesis .
  qed
  from float64_in_range[OF qlo qhi] obtain sc where
    sc: "float64 q = Inr sc" "\<bar>sc - q\<bar> \<le> q / 2 ^ 53" "0 < sc" by blast
  have td: "py_truediv sz (int m) = Inr sc"
    using m(1) sc(1) by (simp add: py_truediv_def q_def)
  have scq: "\<bar>sc - real_of_int sz / real m\<bar> \<le> real_of_int sz / real m / 2 ^ 53"
    using sc(2) by (simp add: q_def)
  from round_times_close[OF assms(3) m(2) m(4) assms(5,6) scq] obtain rw where
    rw: "round_times w sc = Inr rw" "\<bar>real_of_int rw - real w * sc\<bar> \<le> 1 / 2 + 1 / 2 ^ 19"
      "0 \<le> rw" "rw \<le> sz" "w = m \<longrightarrow> rw = sz" by blast
  from round_times_close[OF assms(1) m(3) m(4) assms(5,6) scq] obtain rh where
    rh: "round_times h sc = Inr rh" "\<bar>real_of_int rh - real h * sc\<bar> \<le> 1 / 2 + 1 / 2 ^ 19"
      "0 \<le> rh" "rh \<le> sz" "h = m \<longrightarrow> rh = sz" by blast
  let ?nw = "max 1 rw" and ?nh = "max 1 rh"
  have yw: "0 < real w * sc" using assms(3) sc(3) by simp
  have yh: "0 < real h * sc" using assms(1) sc(3) by simp
  have cw: "\<bar>real_of_int ?nw - real w * sc\<bar> < 1" using clamp_close[OF rw(2,3) yw] .
  have ch: "\<bar>real_of_int ?nh - real h * sc\<bar> < 1" using clamp_close[OF rh(2,3) yh] .
  have bw: "1 \<le> ?nw" "?nw \<le> sz" using rw(4) assms(5) by simp_all
  have bh: "1 \<le> ?nh" "?nh \<le> sz" using rh(4) assms(5) by simp_all
  have ew: "h \<le> w \<longrightarrow> ?nw = sz" using rw(5) assms(5) by (auto simp: m_def max_def)
  have eh: "w \<le> h \<longrightarrow> ?nh = sz" using rh(5) assms(5) by (auto simp: m_def max_def)
  have pw: "0 \<le> sz - ?nw" using bw(2) by simp
  have ph: "0 \<le> sz - ?nh" using bh(2) by simp
  define v where "v = \<lparr>scale = sc, new_w = ?nw, new_h = ?nh,
      interp_of = (if sc < 1 then INTER_AREA else INTER_CUBIC),
      pad_w = sz - ?nw, pad_h = sz - ?nh,
      pad_top = (sz - ?nh) div 2, pad_bottom = (sz - ?nh) - (sz - ?nh) div 2,
      pad_left = (sz - ?nw) div 2, pad_right = (sz - ?nw) - (sz - ?nw) div 2\<rparr>"
  have c: "letterbox_compute h w sz = Inr v"
    unfolding letterbox_compute_def v_def Let_def m_def[symmetric] by (simp add: td rw(1) rh(1))
  have sel: "scale v = sc" "new_w v = ?nw" "new_h v = ?nh"
    "pad_top v = (sz - ?nh) div 2" "pad_bottom v = (sz - ?nh) - (sz - ?nh) div 2"
    "pad_left v = (sz - ?nw) div 2" "pad_right v = (sz - ?nw) - (sz - ?nw) div 2"
    by (simp_all add: v_def)
  show ?thesis
    apply (rule exI[of _ v])
    unfolding sel m_def[symmetric]
    using c td scq ew eh bw bh cw ch pad_split[OF pw] pad_split[OF ph]
    by (intro conjI) (simp_all only:)
qed

lemma letterbox_general:
  assumes "1 \<le> height gray" "int (height gray) \<le> INT_MAX"
    and "1 \<le> width gray" "int (width gray) \<le> INT_MAX"
    and "1 \<le> sz" "sz \<le> INT_MAX"
  shows "\<exists>v resized padded.
         letterbox_compute (height gray) (width gray) sz = Inr v
       \<and> cv2_resize cv gray (new_w v, new_h v) (interp_of v) = Inr resized
       \<and> cv2_copyMakeBorder cv resized (pad_top v) (pad_bottom v) (pad_left v) (pad_right v)
           = Inr padded
       \<and> letterbox cv gray sz ''reflect'' = Inr padded
       \<and> height padded = nat sz \<and> width padded = nat sz
       \<and> py_truediv sz (int (max (height gray) (width gray))) = Inr (scale v)
       \<and> \<bar>scale v - real_of_int sz / real (max (height gray) (width gray))\<bar>
            \<le> real_of_int sz / real (max (height gray) (width gray)) / 2 ^ 53
       \<and> (height gray \<le> width gray \<longrightarrow> width resized = nat sz)
       \<and> (width gray \<le> height gray \<longrightarrow> height resized = nat sz)
       \<and> \<bar>real (width resized) - real (width gray) * scale v\<bar> < 1
       \<and> \<bar>real (height resized) - real (height gray) * scale v\<bar> < 1
       \<and> pad_top v + pad_bottom v = sz - int (height resized)
       \<and> (pad_bottom v = pad_top v \<or> pad_bottom v = pad_top v + 1) \<and> 0 \<le> pad_top v
       \<and> pad_left v + pad_right v = sz - int (width resized)
       \<and> (pad_right v = pad_left v \<or> pad_right v = pad_left v + 1) \<and> 0 \<le> pad_left v"
proof -
  have hb: "height gray < 2 ^ 31" "width gray < 2 ^ 31" "sz < 2 ^ 31"
    using assms(2,4,6) by (simp_all add: INT_MAX_def)
  from letterbox_compute_ok[OF assms(1) hb(1) assms(3) hb(2) assms(5) hb(3)] obtain v where
    c: "letterbox_compute (height gray) (width gray) sz = Inr v"
    and td: "py_truediv sz (int (max (height gray) (width gray))) = Inr (scale v)"
    and sc: "\<bar>scale v - real_of_int sz / real (max (height gray) (width gray))\<bar>
            \<le> real_of_int sz / real (max (height gray) (width gray)) / 2 ^ 53"
    and ew: "height gray \<le> width gray \<longrightarrow> new_w v = sz"
    and eh: "width gray \<le> height gray \<longrightarrow> new_h v = sz"
    and rw: "1 \<le> new_w v" "new_w v \<le> sz" and rh: "1 \<le> new_h v" "new_h v \<le> sz"
    and cw: "\<bar>real_of_int (new_w v) - real (width gray) * scale v\<bar> < 1"
    and ch: "\<bar>real_of_int (new_h v) - real (height gray) * scale v\<bar> < 1"
    and tb: "pad_top v + pad_bottom v = sz - new_h v"
      "pad_bottom v = pad_top v \<or> pad_bottom v = pad_top v + 1" "0 \<le> pad_top v"
    and lr: "pad_left v + pad_right v = sz - new_w v"
      "pad_right v = pad_left v \<or> pad_right v = pad_left v + 1" "0 \<le> pad_left v"
    by blast
  define resized where "resized = \<lparr>height = nat (new_h v), width = nat (new_w v),
      pixel = resize_px cv gray (nat (new_w v)) (nat (new_h v)) (interp_of v)\<rparr>"
  define padded where "padded = \<lparr>height = height resized + nat (pad_top v) + nat (pad_bottom v),
      width = width resized + nat (pad_left v) + nat (pad_right v),
      pixel = reflect101_px cv resized (nat (pad_top v)) (nat (pad_bottom v))
                (nat (pad_left v)) (nat (pad_right v))\<rparr>"
  have r: "cv2_resize cv gray (new_w v, new_h v) (interp_of v) = Inr resized"
    using assms rw rh by (simp add: cv2_resize_def resized_def)
  have nb: "0 \<le> pad_bottom v" "0 \<le> pad_right v" using tb lr by auto
  have ub: "pad_top v \<le> INT_MAX" "pad_bottom v \<le> INT_MAX" "pad_left v \<le> INT_MAX"
    "pad_right v \<le> INT_MAX"
    using tb lr nb rw rh assms(6) by linarith+
  have p: "cv2_copyMakeBorder cv resized (pad_top v) (pad_bottom v) (pad_left v) (pad_right v)
           = Inr padded"
    using tb(3) lr(3) nb ub by (simp add: cv2_copyMakeBorder_def padded_def)
  have l: "letterbox cv gray sz ''reflect'' = Inr padded"
    by (simp add: letterbox_def c r p)
  have hr: "int (height resized) = new_h v" "int (width resized) = new_w v"
    using rw rh by (simp_all add: resized_def)
  have hp: "height padded = nat sz"
    using tb nb rh by (simp add: padded_def resized_def; linarith)
  have wp: "width padded = nat sz"
    using lr nb rw by (simp add: padded_def resized_def; linarith)
  have rr: "real (height resized) = real_of_int (new_h v)" "real (width resized) = real_of_int (new_w v)"
    using rw rh by (simp_all add: resized_def)
  have e1: "height gray \<le> width gray \<longrightarrow> width resized = nat sz"
    using ew by (simp add: resized_def)
  have e2: "width gray \<le> height gray \<longrightarrow> height resized = nat sz"
    using eh by (simp add: resized_def)
  show ?thesis
    apply (rule exI[of _ v], rule exI[of _ resized], rule exI[of _ padded])
    unfolding rr hr
    using c r p l hp wp td sc e1 e2 cw ch tb lr
    by (intro conjI) (simp_all only:)
qed

lemma uint8_unit_interval:
  "0 \<le> real (unat (p :: uint8)) / 255" "real (unat (p :: uint8)) / 255 \<le> 1"
proof -
  have "unat p < 2 ^ 8" using unsigned_less[of p, where ?'a = nat] by simp
  then have "unat p \<le> 255" by simp
  then have "real (unat p) \<le> real 255" by (simp only: of_nat_le_iff)
  then show "real (unat p) / 255 \<le> 1" by simp
  show "0 \<le> real (unat p) / 255"
    by (intro divide_nonneg_nonneg of_nat_0_le_iff) simp
qed

lemma float32_unit_interval:
  "0 \<le> round_binary 24 (- 126) (real (unat (p :: uint8)) / 255)"
  "round_binary 24 (- 126) (real (unat (p :: uint8)) / 255) \<le> 1"
  using round_binary_unit[OF uint8_unit_interval[of p], of 24 "- 126"] by simp_all

lemma tensor_of_gray:
  "shape (unsqueeze0 (transpose_201 (div255 (np_stack3 g)))) = [1, 3, height g, width g]"
  "elem (unsqueeze0 (transpose_201 (div255 (np_stack3 g)))) [b, c, y, x]
     = round_binary 24 (- 126) (real (unat (pixel g y x)) / 255)"
  "0 \<le> elem (unsqueeze0 (transpose_201 (div255 (np_stack3 g)))) [b, c, y, x]"
  "elem (unsqueeze0 (transpose_201 (div255 (np_stack3 g)))) [b, c, y, x] \<le> 1"
proof -
  show e: "elem (unsqueeze0 (transpose_201 (div255 (np_stack3 g)))) [b, c, y, x]
     = round_binary 24 (- 126) (real (unat (pixel g y x)) / 255)"
    by (simp add: unsqueeze0_def transpose_201_def div255_def np_stack3_def)
  show "shape (unsqueeze0 (transpose_201 (div255 (np_stack3 g)))) = [1, 3, height g, width g]"
    by (simp add: unsqueeze0_def transpose_201_def div255_def np_stack3_def)
  show "0 \<le> elem (unsqueeze0 (transpose_201 (div255 (np_stack3 g)))) [b, c, y, x]"
    "elem (unsqueeze0 (transpose_201 (div255 (np_stack3 g)))) [b, c, y, x] \<le> 1"
    unfolding e using float32_unit_interval[of "pixel g y x"] by blast+
qed

text \<open>The rounding of the floats shows at 45 by 320 pixels and size 224: the scale is the
  float next to 0.7, a little below it, and 45 times the scale rounds to 31, not to 32.\<close>

lemma compute_45_320:
  "letterbox_compute 45 320 224 =
     Inr \<lparr>scale = 3152519739159347 / 4503599627370496, new_w = 224, new_h = 31,
          interp_of = INTER_AREA, pad_w = 0, pad_h = 193, pad_top = 96, pad_bottom = 97,
          pad_left = 0, pad_right = 0\<rparr>"
  by (simp add: letterbox_compute_def py_truediv_def round_times_def float64_def
      round_binary_def binary_exponent_def compute_bitlen py_round_def Let_def)

lemma compute_instance:
  "letterbox_compute 384 512 224 =
     Inr \<lparr>scale = 7 / 16, new_w = 224, new_h = 168, interp_of = INTER_AREA,
          pad_w = 0, pad_h = 56, pad_top = 28, pad_bottom = 28, pad_left = 0, pad_right = 0\<rparr>"
  by (simp add: letterbox_compute_def py_truediv_def round_times_def float64_def
      round_binary_def binary_exponent_def compute_bitlen py_round_def Let_def)

lemma to_grayscale_color:
  assumes "length (shape img) = 3" "shape img ! 2 = 3"
  shows "to_grayscale cv img = Inr (cvtColor_RGB2GRAY cv (cvtColor_BGR2RGB img))"
  using assms by (simp add: to_grayscale_def Let_def)

lemma instance_384_512:
  assumes "shape img = [384, 512, 3]"
  shows "\<exists>gray resized padded.
      to_grayscale cv img = Inr gray \<and> height gray = 384 \<and> width gray = 512
    \<and> cv2_resize cv gray (224, 168) INTER_AREA = Inr resized
    \<and> height resized = 168 \<and> width resized = 224
    \<and> cv2_copyMakeBorder cv resized 28 28 0 0 = Inr padded
    \<and> height padded = 224 \<and> width padded = 224
    \<and> letterbox cv gray 224 ''reflect'' = Inr padded
    \<and> preprocess_decoded cv (UInt8 img) 224 ''reflect''
        = Inr (unsqueeze0 (transpose_201 (div255 (np_stack3 padded))))
    \<and> shape (unsqueeze0 (transpose_201 (div255 (np_stack3 padded)))) = [1, 3, 224, 224]
    \<and> (\<forall>c<3. \<forall>y<224. \<forall>x<224.
          elem (unsqueeze0 (transpose_201 (div255 (np_stack3 padded)))) [0, c, y, x]
            = round_binary 24 (- 126) (real (unat (pixel padded y x)) / 255)
        \<and> 0 \<le> elem (unsqueeze0 (transpose_201 (div255 (np_stack3 padded)))) [0, c, y, x]
        \<and> elem (unsqueeze0 (transpose_201 (div255 (np_stack3 padded)))) [0, c, y, x] \<le> 1)"
proof -
  define gray where "gray = cvtColor_RGB2GRAY cv (cvtColor_BGR2RGB img)"
  have g: "to_grayscale cv img = Inr gray"
    unfolding gray_def using assms by (intro to_grayscale_color) simp_all
  have hw: "height gray = 384" "width gray = 512"
    using assms by (simp_all add: gray_def cvtColor_RGB2GRAY_def cvtColor_BGR2RGB_def)
  define resized where "resized = \<lparr>height = 168, width = 224,
      pixel = resize_px cv gray 224 168 INTER_AREA\<rparr>"
  define padded where "padded = \<lparr>height = 224, width = 224,
      pixel = reflect101_px cv resized 28 28 0 0\<rparr>"
  have r: "cv2_resize cv gray (224, 168) INTER_AREA = Inr resized"
    by (simp add: cv2_resize_def hw resized_def INT_MAX_def)
  have p: "cv2_copyMakeBorder cv resized 28 28 0 0 = Inr padded"
    by (simp add: cv2_copyMakeBorder_def resized_def padded_def INT_MAX_def)
  have l: "letterbox cv gray 224 ''reflect'' = Inr padded"
    by (simp add: letterbox_def hw compute_instance r p)
  have d: "preprocess_decoded cv (UInt8 img) 224 ''reflect''
        = Inr (unsqueeze0 (transpose_201 (div255 (np_stack3 padded))))"
    by (simp add: preprocess_decoded_def g l)
  have dims: "height resized = 168" "width resized = 224" "height padded = 224"
    "width padded = 224" by (simp_all add: resized_def padded_def)
  have sh: "shape (unsqueeze0 (transpose_201 (div255 (np_stack3 padded)))) = [1, 3, 224, 224]"
    using tensor_of_gray(1)[of padded] dims by simp
  show ?thesis
    apply (rule exI[of _ gray], rule exI[of _ resized], rule exI[of _ padded])
    using g hw r p l d dims sh tensor_of_gray(2,3,4)[of padded]
    by (intro conjI allI impI) (simp_all only:)
qed

section \<open>Claims about preprocessing.py\<close>

text \<open>
  Claim C3 as stated fails: not every target size of at least 1 gives an image. For an
  image of 2 by 4 pixels and the size 2147483648 the resized width is 2147483648, one
  more than a C \<open>int\<close> holds, and \<open>cv2.resize\<close> rejects it.
\<close>

theorem letterbox_rejects_huge_size:
  "1 \<le> height demo_gray \<and> 1 \<le> width demo_gray \<and> (1::int) \<le> 2147483648
   \<and> letterbox demo_cv2 demo_gray 2147483648 ''reflect''
       = Inl (CvError ''resize: empty source or bad target size'')"
  by (simp add: demo_gray_def letterbox_def letterbox_compute_def py_truediv_def
      round_times_def float64_def round_binary_def binary_exponent_def compute_bitlen
      py_round_def Let_def cv2_resize_def INT_MAX_def)

text \<open>
  Claim C3, amended. For a grayscale image whose height and width are between 1 and the
  largest C \<open>int\<close> (the range of an OpenCV image dimension) and a target size in the same
  range, \<open>letterbox\<close> returns an image of exactly size by size pixels, as long as there
  is memory for it. The scale is the float nearest to size / max(h, w). The larger
  dimension is scaled to exactly the target size, the other one to within one pixel of
  its product with the scale, and the padding of each axis is split in two halves, the
  odd pixel going to the bottom and to the right. For a 512 by 384 colour image and size 224 the scale is 0.4375, the resized
  image is 224 by 168, 28 rows are added above and 28 below, and the tensor, made of the
  pixels of that padded image divided by 255 in \<open>float32\<close>, has shape [1, 3, 224, 224]
  and values between 0 and 1.
\<close>

theorem letterbox_square:
  "(\<forall>cv (gray :: gray_image) sz.
      1 \<le> height gray \<and> int (height gray) \<le> INT_MAX
      \<and> 1 \<le> width gray \<and> int (width gray) \<le> INT_MAX
      \<and> 1 \<le> sz \<and> sz \<le> INT_MAX \<longrightarrow>
      (\<exists>v resized padded.
         letterbox_compute (height gray) (width gray) sz = Inr v
       \<and> cv2_resize cv gray (new_w v, new_h v) (interp_of v) = Inr resized
       \<and> cv2_copyMakeBorder cv resized (pad_top v) (pad_bottom v) (pad_left v) (pad_right v)
           = Inr padded
       \<and> letterbox cv gray sz ''reflect'' = Inr padded
       \<and> height padded = nat sz \<and> width padded = nat sz
       \<and> py_truediv sz (int (max (height gray) (width gray))) = Inr (scale v)
       \<and> \<bar>scale v - real_of_int sz / real (max (height gray) (width gray))\<bar>
            \<le> real_of_int sz / real (max (height gray) (width gray)) / 2 ^ 53
       \<and> (height gray \<le> width gray \<longrightarrow> width resized = nat sz)
       \<and> (width gray \<le> height gray \<longrightarrow> height resized = nat sz)
       \<and> \<bar>real (width resized) - real (width gray) * scale v\<bar> < 1
       \<and> \<bar>real (height resized) - real (height gray) * scale v\<bar> < 1
       \<and> pad_top v + pad_bottom v = sz - int (height resized)
       \<and> (pad_bottom v = pad_top v \<or> pad_bottom v = pad_top v + 1) \<and> 0 \<le> pad_top v
       \<and> pad_left v + pad_right v = sz - int (width resized)
       \<and> (pad_right v = pad_left v \<or> pad_right v = pad_left v + 1) \<and> 0 \<le> pad_left v))
   \<and> (\<forall>cv img. shape img = [384, 512, 3] \<longrightarrow>
        letterbox_compute 384 512 224 =
          Inr \<lparr>scale = 7 / 16, new_w = 224, new_h = 168, interp_of = INTER_AREA,
               pad_w = 0, pad_h = 56, pad_top = 28, pad_bottom = 28,
               pad_left = 0, pad_right = 0\<rparr>
      \<and> (\<exists>gray resized padded.
            to_grayscale cv img = Inr gray \<and> height gray = 384 \<and> width gray = 512
          \<and> cv2_resize cv gray (224, 168) INTER_AREA = Inr resized
          \<and> height resized = 168 \<and> width resized = 224
          \<and> cv2_copyMakeBorder cv resized 28 28 0 0 = Inr padded
          \<and> height padded = 224 \<and> width padded = 224
          \<and> letterbox cv gray 224 ''reflect'' = Inr padded
          \<and> preprocess_decoded cv (UInt8 img) 224 ''reflect''
              = Inr (unsqueeze0 (transpose_201 (div255 (np_stack3 padded))))
          \<and> shape (unsqueeze0 (transpose_201 (div255 (np_stack3 padded)))) = [1, 3, 224, 224]
          \<and> (\<forall>c<3. \<forall>y<224. \<forall>x<224.
                elem (unsqueeze0 (transpose_201 (div255 (np_stack3 padded)))) [0, c, y, x]
                  = round_binary 24 (- 126) (real (unat (pixel padded y x)) / 255)
              \<and> 0 \<le> elem (unsqueeze0 (transpose_201 (div255 (np_stack3 padded)))) [0, c, y, x]
              \<and> elem (unsqueeze0 (transpose_201 (div255 (np_stack3 padded)))) [0, c, y, x] \<le> 1)))"
proof (intro conjI allI impI)
  fix cv and gray :: gray_image and sz :: int
  assume "1 \<le> height gray \<and> int (height gray) \<le> INT_MAX
      \<and> 1 \<le> width gray \<and> int (width gray) \<le> INT_MAX
      \<and> 1 \<le> sz \<and> sz \<le> INT_MAX"
  then have h: "1 \<le> height gray" "int (height gray) \<le> INT_MAX" "1 \<le> width gray"
    "int (width gray) \<le> INT_MAX" "1 \<le> sz" "sz \<le> INT_MAX" by blast+
  show "\<exists>v resized padded.
         letterbox_compute (height gray) (width gray) sz = Inr v
       \<and> cv2_resize cv gray (new_w v, new_h v) (interp_of v) = Inr resized
       \<and> cv2_copyMakeBorder cv resized (pad_top v) (pad_bottom v) (pad_left v) (pad_right v)
           = Inr padded
       \<and> letterbox cv gray sz ''reflect'' = Inr padded
       \<and> height padded = nat sz \<and> width padded = nat sz
       \<and> py_truediv sz (int (max (height gray) (width gray))) = Inr (scale v)
       \<and> \<bar>scale v - real_of_int sz / real (max (height gray) (width gray))\<bar>
            \<le> real_of_int sz / real (max (height gray) (width gray)) / 2 ^ 53
       \<and> (height gray \<le> width gray \<longrightarrow> width resized = nat sz)
       \<and> (width gray \<le> height gray \<longrightarrow> height resized = nat sz)
       \<and> \<bar>real (width resized) - real (width gray) * scale v\<bar> < 1
       \<and> \<bar>real (height resized) - real (height gray) * scale v\<bar> < 1
       \<and> pad_top v + pad_bottom v = sz - int (height resized)
       \<and> (pad_bottom v = pad_top v \<or> pad_bottom v = pad_top v + 1) \<and> 0 \<le> pad_top v
       \<and> pad_left v + pad_right v = sz - int (width resized)
       \<and> (pad_right v = pad_left v \<or> pad_right v = pad_left v + 1) \<and> 0 \<le> pad_left v"
    by (rule letterbox_general[OF h])
next
  show "letterbox_compute 384 512 224 =
          Inr \<lparr>scale = 7 / 16, new_w = 224, new_h = 168, interp_of = INTER_AREA,
               pad_w = 0, pad_h = 56, pad_top = 28, pad_bottom = 28,
               pad_left = 0, pad_right = 0\<rparr>"
    by (rule compute_instance)
next
  fix cv and img :: "uint8 ndarray"
  assume "shape img = [384, 512, 3]"
  then show "\<exists>gray resized padded.
            to_grayscale cv img = Inr gray \<and> height gray = 384 \<and> width gray = 512
          \<and> cv2_resize cv gray (224, 168) INTER_AREA = Inr resized
          \<and> height resized = 168 \<and> width resized = 224
          \<and> cv2_copyMakeBorder cv resized 28 28 0 0 = Inr padded
          \<and> height padded = 224 \<and> width padded = 224
          \<and> letterbox cv gray 224 ''reflect'' = Inr padded
          \<and> preprocess_decoded cv (UInt8 img) 224 ''reflect''
              = Inr (unsqueeze0 (transpose_201 (div255 (np_stack3 padded))))
          \<and> shape (unsqueeze0 (transpose_201 (div255 (np_stack3 padded)))) = [1, 3, 224, 224]
          \<and> (\<forall>c<3. \<forall>y<224. \<forall>x<224.
                elem (unsqueeze0 (transpose_201 (div255 (np_stack3 padded)))) [0, c, y, x]
                  = round_binary 24 (- 126) (real (unat (pixel padded y x)) / 255)
              \<and> 0 \<le> elem (unsqueeze0 (transpose_201 (div255 (np_stack3 padded)))) [0, c, y, x]
              \<and> elem (unsqueeze0 (transpose_201 (div255 (np_stack3 padded)))) [0, c, y, x] \<le> 1)"
    by (rule instance_384_512)
qed

theorem letterbox_square_witness:
  "1 \<le> height demo_gray \<and> int (height demo_gray) \<le> INT_MAX
   \<and> 1 \<le> width demo_gray \<and> int (width demo_gray) \<le> INT_MAX
   \<and> (1::int) \<le> 8 \<and> 8 \<le> INT_MAX
   \<and> (\<exists>padded. letterbox demo_cv2 demo_gray 8 ''reflect'' = Inr padded
         \<and> height padded = 8 \<and> width padded = 8)
   \<and> shape demo_color = [384, 512, 3]
   \<and> (\<exists>t. preprocess_decoded demo_cv2 (UInt8 demo_color) 224 ''reflect'' = Inr t
         \<and> shape t = [1, 3, 224, 224])"
proof -
  have h: "1 \<le> height demo_gray \<and> int (height demo_gray) \<le> INT_MAX
      \<and> 1 \<le> width demo_gray \<and> int (width demo_gray) \<le> INT_MAX
      \<and> (1::int) \<le> 8 \<and> 8 \<le> INT_MAX"
    by (simp add: demo_gray_def INT_MAX_def)
  have s: "shape demo_color = [384, 512, 3]" by (simp add: demo_color_def)
  from letterbox_square[THEN conjunct1, rule_format, OF h, of demo_cv2]
  have a: "\<exists>padded. letterbox demo_cv2 demo_gray 8 ''reflect'' = Inr padded
         \<and> height padded = 8 \<and> width padded = 8"
    by auto
  from letterbox_square[THEN conjunct2, rule_format, OF s, of demo_cv2]
  have b: "\<exists>t. preprocess_decoded demo_cv2 (UInt8 demo_color) 224 ''reflect'' = Inr t
         \<and> shape t = [1, 3, 224, 224]"
    by blast
  show ?thesis using h s a b by blast
qed

text \<open>
  Claim C9. The grayscale step has three cases. An image with three dimensions and
  three channels is converted from BGR to RGB and then to gray by the luma formula, so
  the red value is read from channel 2 and the blue one from channel 0. An image with
  two dimensions passes through unchanged. Every other shape raises the \<open>ValueError\<close>
  about the shape, in both entry points, and the step fails in no other case.
\<close>

theorem to_grayscale_cases:
  "(length (shape img) = 3 \<and> shape img ! 2 = 3 \<longrightarrow>
      (\<exists>g. to_grayscale cv img = Inr g
          \<and> height g = shape img ! 0 \<and> width g = shape img ! 1
          \<and> (\<forall>y x. pixel g y x =
                rgb2gray cv (elem img [y, x, 2]) (elem img [y, x, 1]) (elem img [y, x, 0]))))
   \<and> (length (shape img) = 2 \<longrightarrow>
      (\<exists>g. to_grayscale cv img = Inr g
          \<and> height g = shape img ! 0 \<and> width g = shape img ! 1
          \<and> (\<forall>y x. pixel g y x = elem img [y, x])))
   \<and> ((\<exists>e. to_grayscale cv img = Inl e)
        \<longleftrightarrow> length (shape img) \<noteq> 2 \<and> \<not> (length (shape img) = 3 \<and> shape img ! 2 = 3))
   \<and> (\<forall>e. to_grayscale cv img = Inl e \<longrightarrow> e = ValueError shape_error_msg)
   \<and> (length (shape img) \<noteq> 2 \<and> \<not> (length (shape img) = 3 \<and> shape img ! 2 = 3) \<longrightarrow>
        (imread cv image_path = Some (UInt8 img) \<longrightarrow>
           preprocess_image cv image_path sz pad_mode = Inl (ValueError shape_error_msg))
      \<and> (cv2_imdecode cv image_bytes = Inr (Some (UInt8 img)) \<longrightarrow>
           preprocess_image_from_bytes cv image_bytes sz pad_mode
             = Inl (ValueError shape_error_msg)))"
  by (auto simp: to_grayscale_def Let_def cvtColor_RGB2GRAY_def cvtColor_BGR2RGB_def
      as_gray_def preprocess_image_def preprocess_image_from_bytes_def preprocess_decoded_def)

theorem to_grayscale_cases_witness:
  "length (shape demo_rgba) \<noteq> 2
   \<and> \<not> (length (shape demo_rgba) = 3 \<and> shape demo_rgba ! 2 = 3)
   \<and> to_grayscale demo_cv2 demo_rgba = Inl (ValueError shape_error_msg)
   \<and> length (shape demo_color) = 3 \<and> shape demo_color ! 2 = 3
   \<and> (\<exists>g. to_grayscale demo_cv2 demo_color = Inr g \<and> height g = 384 \<and> width g = 512)
   \<and> length (shape \<lparr>shape = [1, 1], elem = (\<lambda>idx. 7 :: uint8)\<rparr>) = 2
   \<and> (\<exists>g. to_grayscale demo_cv2 \<lparr>shape = [1, 1], elem = (\<lambda>idx. 7 :: uint8)\<rparr> = Inr g
         \<and> pixel g 0 0 = 7)"
proof -
  have a: "length (shape demo_rgba) \<noteq> 2
      \<and> \<not> (length (shape demo_rgba) = 3 \<and> shape demo_rgba ! 2 = 3)"
    by (simp add: demo_rgba_def)
  have b: "length (shape demo_color) = 3 \<and> shape demo_color ! 2 = 3"
    by (simp add: demo_color_def)
  have c: "length (shape \<lparr>shape = [1, 1], elem = (\<lambda>idx. 7 :: uint8)\<rparr>) = 2" by simp
  note t1 = to_grayscale_cases[of demo_rgba demo_cv2]
  note t2 = to_grayscale_cases[of demo_color demo_cv2]
  note t3 = to_grayscale_cases[of "\<lparr>shape = [1, 1], elem = (\<lambda>idx. 7 :: uint8)\<rparr>" demo_cv2]
  have r1: "to_grayscale demo_cv2 demo_rgba = Inl (ValueError shape_error_msg)"
    using t1 a by blast
  have r2: "\<exists>g. to_grayscale demo_cv2 demo_color = Inr g \<and> height g = 384 \<and> width g = 512"
    using t2 b by (auto simp: demo_color_def)
  have r3: "\<exists>g. to_grayscale demo_cv2 \<lparr>shape = [1, 1], elem = (\<lambda>idx. 7 :: uint8)\<rparr> = Inr g
         \<and> pixel g 0 0 = 7"
    using t3 c by auto
  show ?thesis using a b c r1 r2 r3 by blast
qed

lemma check_compatibility_total:
  "check_compatibility model_name config =
     Inr (\<exists>configs. map_of MODEL_CONFIG_COMPATIBILITY model_name = Some configs \<and> config \<in> set configs)"
  unfolding check_compatibility_def py_in_def py_getitem_def dict_keys_def
  by (cases "map_of MODEL_CONFIG_COMPATIBILITY model_name")
     (auto simp: map_of_eq_None_iff dest: map_of_SomeD intro: rev_image_eqI)

lemma py_in_map_of: "py_in k d \<longleftrightarrow> map_of d k \<noteq> None"
  by (simp add: py_in_def dict_keys_def map_of_eq_None_iff)

section \<open>Claims about inference.py\<close>

text \<open>
  Claim C5. \<open>check_compatibility\<close> never raises: it returns true exactly when the model
  is a key of \<open>MODEL_CONFIG_COMPATIBILITY\<close> and the config is in that model's list, and
  false for every config when the model is not a key.
\<close>

theorem check_compatibility_spec:
  "check_compatibility model_name config =
     Inr (py_in model_name MODEL_CONFIG_COMPATIBILITY
          \<and> (\<exists>configs. py_getitem MODEL_CONFIG_COMPATIBILITY model_name = Inr configs
                \<and> config \<in> set configs))
   \<and> (\<not> py_in model_name MODEL_CONFIG_COMPATIBILITY
        \<longrightarrow> check_compatibility model_name config = Inr False)"
  unfolding check_compatibility_total py_in_map_of py_getitem_def
  by (cases "map_of MODEL_CONFIG_COMPATIBILITY model_name") auto

theorem check_compatibility_spec_witness:
  "\<not> py_in ''resnet50'' MODEL_CONFIG_COMPATIBILITY
   \<and> check_compatibility ''resnet50'' ''config1'' = Inr False
   \<and> check_compatibility ''densenet121'' ''config1'' = Inr True
   \<and> check_compatibility ''densenet121'' ''config3'' = Inr False"
  using check_compatibility_spec[of "''resnet50''" "''config1''"]
    check_compatibility_spec[of "''densenet121''" "''config1''"]
    check_compatibility_spec[of "''densenet121''" "''config3''"]
  by (simp add: py_in_def dict_keys_def py_getitem_def MODEL_CONFIG_COMPATIBILITY_def)

section \<open>The cache and the load path\<close>

lemma log_event_fields [simp]:
  "loaded_models (log_event ev s) = loaded_models s"
  "models_dir (log_event ev s) = models_dir s"
  "device (log_event ev s) = device s"
  "num_classes (log_event ev s) = num_classes s"
  "dropout (log_event ev s) = dropout s"
  "next_obj (log_event ev s) = next_obj s"
  "io_log (log_event ev s) = io_log s @ [ev]"
  by (simp_all add: log_event_def)

lemma load_model_cached:
  "loaded_models s (cache_key_of model_name config) = Some m
   \<Longrightarrow> load_model wd s model_name config = (Inr m, s)"
  by (simp add: load_model_def)

lemma load_model_invalid:
  assumes "loaded_models s (cache_key_of model_name config) = None"
    and "\<not> valid_pair model_name config"
  shows "\<exists>msg. load_model wd s model_name config = (Inl (ValueError msg), s)"
  using assms check_compatibility_total[of model_name config]
  unfolding valid_pair_def load_model_def
  by (auto simp: Let_def split: bool.splits)

lemma load_checkpoint_eq:
  "load_checkpoint wd s m checkpoint = load_state_dict wd s m (normalize_checkpoint checkpoint)"
  unfolding load_checkpoint_def normalize_checkpoint_def py_in_map_of py_getitem_def
  by (cases checkpoint) (auto split: option.splits)

lemma load_state_dict_eq:
  "load_state_dict wd s m sd =
     ((case state_dict_error wd m sd of Some e \<Rightarrow> Inl e | None \<Rightarrow> Inr (m\<lparr>state := Some sd\<rparr>)),
      log_event (LoadStateDict (obj_id m) sd) s)"
  by (simp add: load_state_dict_def Let_def split: option.splits)

lemma load_model_uncached:
  assumes "loaded_models s (cache_key_of model_name config) = None"
    and "valid_pair model_name config"
    and "map_of MODEL_FILENAME_MAP model_name = Some filename"
    and "map_of CONFIG_SETTINGS config = Some cfg"
  shows "load_model wd s model_name config =
    (let p = models_dir s @ [config, filename];
         s1 = log_event (PathExists p) s;
         oid = next_obj s;
         s2 = (log_event (Construct model_name oid) s1)\<lparr>next_obj := Suc oid\<rparr>;
         s3 = log_event (TorchLoad p) s2
     in case Path_exists wd p of
          Inl e \<Rightarrow> (Inl e, s1)
        | Inr False \<Rightarrow>
            (Inl (FileNotFoundError
               (''Model file not found: '' @ path_str p @ ''\<newline>''
                @ ''Please ensure the model is trained and saved in the correct location.'')), s1)
        | Inr True \<Rightarrow>
           (case get_model wd oid model_name (num_classes s) (dropout s) (image_size cfg) of
               Inl e \<Rightarrow> (Inl e, s2)
             | Inr m0 \<Rightarrow>
                (case torch_load wd p (device s) of
                   Inl e \<Rightarrow> (Inl e, s3)
                 | Inr checkpoint \<Rightarrow>
                    (let sd = normalize_checkpoint checkpoint;
                         s4 = log_event (LoadStateDict oid sd) s3
                     in case state_dict_error wd m0 sd of
                          Some e \<Rightarrow> (Inl e, s4)
                        | None \<Rightarrow>
                           (case to_error wd (device s) of
                              Some e \<Rightarrow> (Inl e, s4)
                            | None \<Rightarrow>
                               (let m2 = m0\<lparr>state := Some sd, placed_on := Some (device s),
                                             training := False\<rparr>
                                in (Inr m2, s4\<lparr>loaded_models :=
                                      (loaded_models s)(cache_key_of model_name config \<mapsto> m2)\<rparr>)))))))"
proof -
  have gm: "\<And>e m0. get_model wd (next_obj s) model_name (num_classes s) (dropout s) (image_size cfg) = Inr m0
      \<Longrightarrow> obj_id m0 = next_obj s"
    by (auto simp: get_model_def split: if_splits option.splits)
  show ?thesis
    using assms gm unfolding valid_pair_def load_model_def get_model_path_def
      load_checkpoint_eq load_state_dict_eq
    by (auto simp: Let_def py_getitem_def py_in_map_of split: option.splits sum.splits bool.splits)
qed

lemma valid_pair_lookups:
  assumes "valid_pair model_name config"
  obtains filename cfg where "map_of MODEL_FILENAME_MAP model_name = Some filename"
    and "map_of CONFIG_SETTINGS config = Some cfg"
  using assms unfolding valid_pair_def py_in_map_of by auto

lemma load_model_fields:
  "models_dir (snd (load_model wd s model_name config)) = models_dir s"
  "device (snd (load_model wd s model_name config)) = device s"
  "num_classes (snd (load_model wd s model_name config)) = num_classes s"
  "dropout (snd (load_model wd s model_name config)) = dropout s"
proof -
  consider (hit) m where "loaded_models s (cache_key_of model_name config) = Some m"
    | (bad) "loaded_models s (cache_key_of model_name config) = None" "\<not> valid_pair model_name config"
    | (miss) "loaded_models s (cache_key_of model_name config) = None" "valid_pair model_name config"
    by (cases "loaded_models s (cache_key_of model_name config)") auto
  then have "models_dir (snd (load_model wd s model_name config)) = models_dir s
     \<and> device (snd (load_model wd s model_name config)) = device s
     \<and> num_classes (snd (load_model wd s model_name config)) = num_classes s
     \<and> dropout (snd (load_model wd s model_name config)) = dropout s"
  proof cases
    case hit then show ?thesis by (simp add: load_model_cached)
  next
    case bad
    from load_model_invalid[OF this, of wd] show ?thesis by auto
  next
    case miss
    from valid_pair_lookups[OF miss(2)] obtain filename cfg where
      l: "map_of MODEL_FILENAME_MAP model_name = Some filename" "map_of CONFIG_SETTINGS config = Some cfg"
      by blast
    show ?thesis
      unfolding load_model_uncached[OF miss l]
      by (simp add: Let_def split: sum.splits option.splits bool.splits)
  qed
  then show "models_dir (snd (load_model wd s model_name config)) = models_dir s"
  "device (snd (load_model wd s model_name config)) = device s"
  "num_classes (snd (load_model wd s model_name config)) = num_classes s"
  "dropout (snd (load_model wd s model_name config)) = dropout s" by simp_all
qed

lemma load_model_cache:
  "(\<exists>e. fst (load_model wd s model_name config) = Inl e)
     \<and> loaded_models (snd (load_model wd s model_name config)) = loaded_models s
   \<or> (\<exists>m. load_model wd s model_name config = (Inr m, s)
          \<and> loaded_models s (cache_key_of model_name config) = Some m)
   \<or> (loaded_models s (cache_key_of model_name config) = None \<and> valid_pair model_name config
      \<and> (\<exists>m. fst (load_model wd s model_name config) = Inr m
            \<and> loaded_models (snd (load_model wd s model_name config))
                = (loaded_models s)(cache_key_of model_name config \<mapsto> m)))"
proof -
  consider (hit) m where "loaded_models s (cache_key_of model_name config) = Some m"
    | (bad) "loaded_models s (cache_key_of model_name config) = None" "\<not> valid_pair model_name config"
    | (miss) "loaded_models s (cache_key_of model_name config) = None" "valid_pair model_name config"
    by (cases "loaded_models s (cache_key_of model_name config)") auto
  then show ?thesis
  proof cases
    case hit then show ?thesis by (simp add: load_model_cached)
  next
    case bad
    from load_model_invalid[OF this, of wd] show ?thesis by auto
  next
    case miss
    from valid_pair_lookups[OF miss(2)] obtain filename cfg where
      l: "map_of MODEL_FILENAME_MAP model_name = Some filename" "map_of CONFIG_SETTINGS config = Some cfg"
      by blast
    show ?thesis
      unfolding load_model_uncached[OF miss l] using miss
      by (simp add: Let_def split: sum.splits option.splits bool.splits)
  qed
qed

lemma load_model_success_cached:
  assumes "load_model wd s model_name config = (Inr m, s')"
  shows "loaded_models s' (cache_key_of model_name config) = Some m"
  using load_model_cache[of wd s model_name config] assms by auto

lemma load_model_keeps:
  assumes "loaded_models s k = Some x"
  shows "loaded_models (snd (load_model wd s model_name config)) k = Some x"
  using load_model_cache[of wd s model_name config] assms by (auto simp: fun_upd_def)

lemma predict_state:
  "snd (predict wd cv s image_input model_name config diseases)
     = snd (load_model wd s model_name config)"
  unfolding predict_def
  by (simp add: Let_def split: prod.splits sum.splits option.splits list.splits image_input.splits)

lemma get_model_path_cache:
  "loaded_models (snd (get_model_path wd s model_name config)) = loaded_models s"
  "models_dir (snd (get_model_path wd s model_name config)) = models_dir s"
  unfolding get_model_path_def
  by (simp_all add: Let_def split: sum.splits bool.splits)

lemma valid_pair_names:
  assumes "valid_pair model_name config"
  shows "CHR ''_'' \<notin> set model_name" "CHR ''_'' \<notin> set config"
  using assms unfolding valid_pair_def py_in_def dict_keys_def
    MODEL_FILENAME_MAP_def CONFIG_SETTINGS_def
  by auto

lemma cache_key_inj:
  assumes "cache_key_of m c = cache_key_of m' c'"
    and "CHR ''_'' \<notin> set m'" "CHR ''_'' \<notin> set c'"
  shows "m = m' \<and> c = c'"
proof -
  from assms(1) have "m @ CHR ''_'' # c = m' @ CHR ''_'' # c'"
    by (simp add: cache_key_of_def)
  then obtain us where
    "(m = m' @ us \<and> us @ CHR ''_'' # c = CHR ''_'' # c')
     \<or> (m @ us = m' \<and> CHR ''_'' # c = us @ CHR ''_'' # c')"
    unfolding append_eq_append_conv2 by blast
  then show ?thesis
  proof (elim disjE conjE)
    assume a: "m = m' @ us" "us @ CHR ''_'' # c = CHR ''_'' # c'"
    show ?thesis
    proof (cases us)
      case Nil then show ?thesis using a by simp
    next
      case (Cons x xs)
      then have "c' = xs @ CHR ''_'' # c" using a by simp
      then show ?thesis using assms(3) by simp
    qed
  next
    assume a: "m @ us = m'" "CHR ''_'' # c = us @ CHR ''_'' # c'"
    show ?thesis
    proof (cases us)
      case Nil then show ?thesis using a by simp
    next
      case (Cons x xs)
      then have "x = CHR ''_''" using a by simp
      then have "CHR ''_'' \<in> set m'" using a Cons by auto
      then show ?thesis using assms(2) by simp
    qed
  qed
qed

lemma cache_ok_load: "cache_ok s \<Longrightarrow> cache_ok (snd (load_model wd s model_name config))"
  using load_model_cache[of wd s model_name config]
  unfolding cache_ok_def
  by (elim disjE conjE exE) (auto simp: fun_upd_def split: if_splits)

lemma reachable_cache_ok: "reachable s \<Longrightarrow> cache_ok s"
proof (induction rule: reachable.induct)
  case (reach_init wd dir dev n_classes p_drop)
  then show ?case by (simp add: cache_ok_def ModelInference_def)
next
  case (reach_load s wd model_name config)
  then show ?case by (simp add: cache_ok_load)
next
  case (reach_predict s wd cv image_input model_name config diseases)
  then show ?case by (simp add: predict_state cache_ok_load)
next
  case (reach_path s wd model_name config)
  then show ?case by (simp add: cache_ok_def get_model_path_cache)
next
  case (reach_clear s)
  then show ?case by (simp add: cache_ok_def clear_cache_def)
qed

lemma cache_ok_invalid_uncached:
  assumes "cache_ok s" "\<not> valid_pair model_name config"
  shows "loaded_models s (cache_key_of model_name config) = None"
proof (rule ccontr)
  assume "loaded_models s (cache_key_of model_name config) \<noteq> None"
  then obtain m where "loaded_models s (cache_key_of model_name config) = Some m" by auto
  with assms(1) obtain m' c' where
    k: "cache_key_of model_name config = cache_key_of m' c'" and v: "valid_pair m' c'"
    unfolding cache_ok_def by blast
  from cache_key_inj[OF k valid_pair_names[OF v]] v assms(2) show False by simp
qed

lemma densenet_config3_msg:
  "incompatible_msg ''densenet121'' ''config3'' [''config1'', ''config2'', ''config4''] =
     ''Model 'densenet121' is not compatible with 'config3'.\<newline>Compatible configs for densenet121: ['config1', 'config2', 'config4']\<newline>Config types:\<newline>  - config1: CNN models, 224x224, Focal Loss\<newline>  - config2: CNN models, 320x320, Focal Loss\<newline>  - config3: CNN-Transformer models, 224x224, Focal Loss\<newline>  - config4: All models, 224x224, Asymmetric Loss''"
  by (simp add: incompatible_msg_def py_repr_str_def py_str_list_def)

lemma densenet_config3_load:
  assumes "loaded_models s (cache_key_of ''densenet121'' ''config3'') = None"
  shows "load_model wd s ''densenet121'' ''config3'' =
     (Inl (ValueError (incompatible_msg ''densenet121'' ''config3''
             [''config1'', ''config2'', ''config4''])), s)"
  using assms unfolding load_model_def
  by (simp add: Let_def py_in_def dict_keys_def CONFIG_SETTINGS_def MODEL_FILENAME_MAP_def
      check_compatibility_def py_getitem_def MODEL_CONFIG_COMPATIBILITY_def)

lemma valid_densenet_config1: "valid_pair ''densenet121'' ''config1''"
  by (simp add: valid_pair_def py_in_def dict_keys_def CONFIG_SETTINGS_def
      MODEL_FILENAME_MAP_def check_compatibility_def py_getitem_def
      MODEL_CONFIG_COMPATIBILITY_def)

lemma valid_densenet_config2: "valid_pair ''densenet121'' ''config2''"
  by (simp add: valid_pair_def py_in_def dict_keys_def CONFIG_SETTINGS_def
      MODEL_FILENAME_MAP_def check_compatibility_def py_getitem_def
      MODEL_CONFIG_COMPATIBILITY_def)

lemma densenet_filename: "map_of MODEL_FILENAME_MAP ''densenet121'' = Some ''densenet121.pth''"
  by (simp add: MODEL_FILENAME_MAP_def)

lemma config1_settings:
  "map_of CONFIG_SETTINGS ''config1'' =
     Some \<lparr>image_size = 224, learning_rate = 1 / 10000, loss = ''focal'', model_type = ''CNN''\<rparr>"
  by (simp add: CONFIG_SETTINGS_def)

lemma config2_settings:
  "map_of CONFIG_SETTINGS ''config2'' =
     Some \<lparr>image_size = 320, learning_rate = 3 / 10000, loss = ''focal'', model_type = ''CNN''\<rparr>"
  by (simp add: CONFIG_SETTINGS_def)

lemma demo_engine_fields:
  "loaded_models demo_engine = Map.empty" "models_dir demo_engine = [''models'']"
  "device demo_engine = ''cpu''" "num_classes demo_engine = 6" "dropout demo_engine = 3 / 10"
  "io_log demo_engine = []" "next_obj demo_engine = 0"
  by (simp_all add: demo_engine_def ModelInference_def demo_world_def)

lemma demo_normalize: "normalize_checkpoint demo_checkpoint = demo_state_dict"
  by (simp add: normalize_checkpoint_def demo_checkpoint_def)

lemma demo_load_fst:
  "fst (load_model demo_world demo_engine ''densenet121'' ''config1'') = Inr demo_model"
proof -
  have u: "loaded_models demo_engine (cache_key_of ''densenet121'' ''config1'') = None"
    by (simp add: demo_engine_fields)
  show ?thesis
    unfolding load_model_uncached[OF u valid_densenet_config1 densenet_filename config1_settings]
    by (simp add: Let_def demo_engine_fields demo_world_def Path_exists_def get_model_def
        models_dict_keys_def demo_normalize demo_model_def)
qed

lemma demo_load: 
  "load_model demo_world demo_engine ''densenet121'' ''config1'' = (Inr demo_model, cached_engine)"
  using demo_load_fst by (simp add: cached_engine_def prod_eq_iff)

lemma cached_engine_fields:
  "loaded_models cached_engine (cache_key_of ''densenet121'' ''config1'') = Some demo_model"
  "models_dir cached_engine = [''models'']" "device cached_engine = ''cpu''"
  using load_model_success_cached[OF demo_load] load_model_fields[of demo_world demo_engine "''densenet121''" "''config1''"]
  by (simp_all add: cached_engine_def demo_engine_fields)

lemma reachable_cached: "reachable cached_engine"
  unfolding cached_engine_def demo_engine_def by (intro reach_load reach_init)

lemma filename_inj:
  "map_of MODEL_FILENAME_MAP m = Some f \<Longrightarrow> map_of MODEL_FILENAME_MAP m' = Some f \<Longrightarrow> m = m'"
  by (auto simp: MODEL_FILENAME_MAP_def split: if_splits)

lemma load_model_reads:
  "count_list (io_log (snd (load_model wd s model_name config))) (TorchLoad q)
     = count_list (io_log s) (TorchLoad q)
   \<or> (count_list (io_log (snd (load_model wd s model_name config))) (TorchLoad q)
        = count_list (io_log s) (TorchLoad q) + 1
      \<and> loaded_models s (cache_key_of model_name config) = None
      \<and> (\<exists>filename. map_of MODEL_FILENAME_MAP model_name = Some filename
            \<and> q = models_dir s @ [config, filename]))"
proof -
  consider (hit) m where "loaded_models s (cache_key_of model_name config) = Some m"
    | (bad) "loaded_models s (cache_key_of model_name config) = None" "\<not> valid_pair model_name config"
    | (miss) "loaded_models s (cache_key_of model_name config) = None" "valid_pair model_name config"
    by (cases "loaded_models s (cache_key_of model_name config)") auto
  then show ?thesis
  proof cases
    case hit then show ?thesis by (simp add: load_model_cached)
  next
    case bad
    from load_model_invalid[OF this, of wd] show ?thesis by auto
  next
    case miss
    from valid_pair_lookups[OF miss(2)] obtain filename cfg where
      l: "map_of MODEL_FILENAME_MAP model_name = Some filename" "map_of CONFIG_SETTINGS config = Some cfg"
      by blast
    show ?thesis
      unfolding load_model_uncached[OF miss l] using miss l
      by (simp add: Let_def split: sum.splits option.splits bool.splits)
  qed
qed

lemma get_model_path_reads:
  "count_list (io_log (snd (get_model_path wd s model_name config))) (TorchLoad q)
     = count_list (io_log s) (TorchLoad q)"
  unfolding get_model_path_def
  by (simp add: Let_def split: sum.splits bool.splits)

lemma run_call_keeps:
  assumes "loaded_models s (cache_key_of model_name config) = Some m"
    and "map_of MODEL_FILENAME_MAP model_name = Some filename"
  shows "loaded_models (run_call s call) (cache_key_of model_name config) = Some m
       \<and> models_dir (run_call s call) = models_dir s
       \<and> count_list (io_log (run_call s call)) (TorchLoad (models_dir s @ [config, filename]))
           = count_list (io_log s) (TorchLoad (models_dir s @ [config, filename]))"
proof -
  have load: "loaded_models (snd (load_model wd s m' c')) (cache_key_of model_name config) = Some m
       \<and> models_dir (snd (load_model wd s m' c')) = models_dir s
       \<and> count_list (io_log (snd (load_model wd s m' c'))) (TorchLoad (models_dir s @ [config, filename]))
           = count_list (io_log s) (TorchLoad (models_dir s @ [config, filename]))" for wd m' c'
  proof -
    have "count_list (io_log (snd (load_model wd s m' c'))) (TorchLoad (models_dir s @ [config, filename]))
           = count_list (io_log s) (TorchLoad (models_dir s @ [config, filename]))"
      using load_model_reads[of wd s m' c' "models_dir s @ [config, filename]"]
    proof (elim disjE conjE exE)
      fix f'
      assume n: "loaded_models s (cache_key_of m' c') = None"
        and f: "map_of MODEL_FILENAME_MAP m' = Some f'"
        and q: "models_dir s @ [config, filename] = models_dir s @ [c', f']"
      from q have "config = c'" "filename = f'" by simp_all
      with f assms(2) have "model_name = m'" using filename_inj by blast
      with n assms(1) \<open>config = c'\<close> show ?thesis by simp
    qed
    then show ?thesis
      using load_model_keeps[OF assms(1), of wd m' c'] load_model_fields(1)[of wd s m' c'] by simp
  qed
  show ?thesis
  proof (cases call)
    case (CallLoad wd m' c')
    then show ?thesis using load[of wd m' c'] by simp
  next
    case (CallPredict wd cv i m' c' ds)
    then show ?thesis using load[of wd m' c'] by (simp add: predict_state)
  next
    case (CallPath wd m' c')
    then show ?thesis using assms(1) by (simp add: get_model_path_cache get_model_path_reads)
  qed
qed

lemma run_calls_keeps:
  assumes "loaded_models s (cache_key_of model_name config) = Some m"
    and "map_of MODEL_FILENAME_MAP model_name = Some filename"
  shows "loaded_models (run_calls s calls) (cache_key_of model_name config) = Some m
       \<and> models_dir (run_calls s calls) = models_dir s
       \<and> count_list (io_log (run_calls s calls)) (TorchLoad (models_dir s @ [config, filename]))
           = count_list (io_log s) (TorchLoad (models_dir s @ [config, filename]))"
  using assms(1)
proof (induction calls arbitrary: s)
  case Nil
  then show ?case by (simp add: run_calls_def)
next
  case (Cons call calls)
  from run_call_keeps[OF Cons.prems assms(2), of call]
  have k: "loaded_models (run_call s call) (cache_key_of model_name config) = Some m"
    and d: "models_dir (run_call s call) = models_dir s"
    and c: "count_list (io_log (run_call s call)) (TorchLoad (models_dir s @ [config, filename]))
           = count_list (io_log s) (TorchLoad (models_dir s @ [config, filename]))"
    by simp_all
  from Cons.IH[OF k] d c show ?case by (simp add: run_calls_def)
qed

lemma run_calls_keeps_entry:
  assumes "loaded_models s k = Some m"
  shows "loaded_models (run_calls s calls) k = Some m"
  using assms
proof (induction calls arbitrary: s)
  case Nil
  then show ?case by (simp add: run_calls_def)
next
  case (Cons call calls)
  have "loaded_models (run_call s call) k = Some m"
    using Cons.prems
    by (cases call) (simp_all add: load_model_keeps predict_state get_model_path_cache)
  from Cons.IH[OF this] show ?case by (simp add: run_calls_def)
qed

lemma stale_load:
  "fst (load_model stale_world demo_engine ''densenet121'' ''config1'')
     = Inl (RuntimeError ''Error(s) in loading state_dict'')"
  "loaded_models (snd (load_model stale_world demo_engine ''densenet121'' ''config1''))
     (cache_key_of ''densenet121'' ''config1'') = None"
  "io_log (snd (load_model stale_world demo_engine ''densenet121'' ''config1'')) =
     [PathExists [''models'', ''config1'', ''densenet121.pth''],
      Construct ''densenet121'' 0,
      TorchLoad [''models'', ''config1'', ''densenet121.pth''],
      LoadStateDict 0 (PyDict [(''fc.weight'', PyTensor [1000, 2048])])]"
  "next_obj (snd (load_model stale_world demo_engine ''densenet121'' ''config1'')) = 1"
proof -
  have u: "loaded_models demo_engine (cache_key_of ''densenet121'' ''config1'') = None"
    by (simp add: demo_engine_fields)
  show "fst (load_model stale_world demo_engine ''densenet121'' ''config1'')
     = Inl (RuntimeError ''Error(s) in loading state_dict'')"
    unfolding load_model_uncached[OF u valid_densenet_config1 densenet_filename config1_settings]
    by (simp add: Let_def demo_engine_fields stale_world_def demo_world_def Path_exists_def
        get_model_def models_dict_keys_def normalize_checkpoint_def demo_state_dict_def)
  show "loaded_models (snd (load_model stale_world demo_engine ''densenet121'' ''config1''))
     (cache_key_of ''densenet121'' ''config1'') = None"
    unfolding load_model_uncached[OF u valid_densenet_config1 densenet_filename config1_settings]
    by (simp add: Let_def demo_engine_fields stale_world_def demo_world_def Path_exists_def
        get_model_def models_dict_keys_def normalize_checkpoint_def demo_state_dict_def)
  show "io_log (snd (load_model stale_world demo_engine ''densenet121'' ''config1'')) =
     [PathExists [''models'', ''config1'', ''densenet121.pth''],
      Construct ''densenet121'' 0,
      TorchLoad [''models'', ''config1'', ''densenet121.pth''],
      LoadStateDict 0 (PyDict [(''fc.weight'', PyTensor [1000, 2048])])]"
    unfolding load_model_uncached[OF u valid_densenet_config1 densenet_filename config1_settings]
    by (simp add: Let_def demo_engine_fields stale_world_def demo_world_def Path_exists_def
        get_model_def models_dict_keys_def normalize_checkpoint_def demo_state_dict_def)
  show "next_obj (snd (load_model stale_world demo_engine ''densenet121'' ''config1'')) = 1"
    unfolding load_model_uncached[OF u valid_densenet_config1 densenet_filename config1_settings]
    by (simp add: Let_def demo_engine_fields stale_world_def demo_world_def Path_exists_def
        get_model_def models_dict_keys_def normalize_checkpoint_def demo_state_dict_def)
qed

lemma retried_engine_eq:
  "retried_engine =
     snd (load_model demo_world
            (snd (load_model stale_world demo_engine ''densenet121'' ''config1''))
            ''densenet121'' ''config1'')"
  by (simp add: retried_engine_def run_calls_def)

lemma retry_load:
  "fst (load_model demo_world
          (snd (load_model stale_world demo_engine ''densenet121'' ''config1''))
          ''densenet121'' ''config1'') = Inr (demo_model\<lparr>obj_id := 1\<rparr>)"
  "io_log retried_engine =
     [PathExists [''models'', ''config1'', ''densenet121.pth''],
      Construct ''densenet121'' 0,
      TorchLoad [''models'', ''config1'', ''densenet121.pth''],
      LoadStateDict 0 (PyDict [(''fc.weight'', PyTensor [1000, 2048])]),
      PathExists [''models'', ''config1'', ''densenet121.pth''],
      Construct ''densenet121'' 1,
      TorchLoad [''models'', ''config1'', ''densenet121.pth''],
      LoadStateDict 1 demo_state_dict]"
proof -
  have f: "models_dir (snd (load_model stale_world demo_engine ''densenet121'' ''config1''))
             = [''models'']"
    "device (snd (load_model stale_world demo_engine ''densenet121'' ''config1'')) = ''cpu''"
    "num_classes (snd (load_model stale_world demo_engine ''densenet121'' ''config1'')) = 6"
    "dropout (snd (load_model stale_world demo_engine ''densenet121'' ''config1'')) = 3 / 10"
    by (simp_all add: load_model_fields demo_engine_fields)
  show "fst (load_model demo_world
          (snd (load_model stale_world demo_engine ''densenet121'' ''config1''))
          ''densenet121'' ''config1'') = Inr (demo_model\<lparr>obj_id := 1\<rparr>)"
    unfolding load_model_uncached[OF stale_load(2) valid_densenet_config1 densenet_filename
        config1_settings]
    by (simp add: Let_def f stale_load(3,4) demo_world_def Path_exists_def get_model_def
        models_dict_keys_def demo_normalize demo_model_def)
  show "io_log retried_engine =
     [PathExists [''models'', ''config1'', ''densenet121.pth''],
      Construct ''densenet121'' 0,
      TorchLoad [''models'', ''config1'', ''densenet121.pth''],
      LoadStateDict 0 (PyDict [(''fc.weight'', PyTensor [1000, 2048])]),
      PathExists [''models'', ''config1'', ''densenet121.pth''],
      Construct ''densenet121'' 1,
      TorchLoad [''models'', ''config1'', ''densenet121.pth''],
      LoadStateDict 1 demo_state_dict]"
    unfolding retried_engine_eq
      load_model_uncached[OF stale_load(2) valid_densenet_config1 densenet_filename
        config1_settings]
    by (simp add: Let_def f stale_load(3,4) demo_world_def Path_exists_def get_model_def
        models_dict_keys_def demo_normalize demo_model_def)
qed

lemma reachable_retried: "reachable retried_engine"
  unfolding retried_engine_eq demo_engine_def by (intro reach_load reach_init)

section \<open>Claims about the cache and about loading\<close>

text \<open>
  Claim C2 as stated fails: within one lifetime of the cache the weight file of a key
  can be read, and its architecture constructed, more than once. The cache entry is
  written only at the end of a successful load. On a new engine a first load of
  densenet121 under config1 reads the weight file and then fails, because the file holds
  the parameters of another architecture; after the file was replaced the second load
  reads it again and succeeds, and the third returns the object of the second. The cache
  was never cleared, and the file was read twice and the architecture constructed twice.
\<close>

theorem weight_file_read_twice:
  "reachable retried_engine
   \<and> fst (load_model stale_world demo_engine ''densenet121'' ''config1'')
       = Inl (RuntimeError ''Error(s) in loading state_dict'')
   \<and> load_model demo_world
       (snd (load_model stale_world demo_engine ''densenet121'' ''config1''))
       ''densenet121'' ''config1'' = (Inr (demo_model\<lparr>obj_id := 1\<rparr>), retried_engine)
   \<and> load_model demo_world retried_engine ''densenet121'' ''config1''
       = (Inr (demo_model\<lparr>obj_id := 1\<rparr>), retried_engine)
   \<and> io_log retried_engine =
       [PathExists [''models'', ''config1'', ''densenet121.pth''],
        Construct ''densenet121'' 0,
        TorchLoad [''models'', ''config1'', ''densenet121.pth''],
        LoadStateDict 0 (PyDict [(''fc.weight'', PyTensor [1000, 2048])]),
        PathExists [''models'', ''config1'', ''densenet121.pth''],
        Construct ''densenet121'' 1,
        TorchLoad [''models'', ''config1'', ''densenet121.pth''],
        LoadStateDict 1 demo_state_dict]
   \<and> count_list (io_log retried_engine) (TorchLoad [''models'', ''config1'', ''densenet121.pth''])
       = 2"
proof -
  have a: "load_model demo_world
       (snd (load_model stale_world demo_engine ''densenet121'' ''config1''))
       ''densenet121'' ''config1'' = (Inr (demo_model\<lparr>obj_id := 1\<rparr>), retried_engine)"
    using retry_load(1) by (simp add: retried_engine_eq prod_eq_iff)
  have b: "load_model demo_world retried_engine ''densenet121'' ''config1''
       = (Inr (demo_model\<lparr>obj_id := 1\<rparr>), retried_engine)"
    using load_model_success_cached[OF a] by (rule load_model_cached)
  have c: "count_list (io_log retried_engine)
       (TorchLoad [''models'', ''config1'', ''densenet121.pth'']) = 2"
    by (simp add: retry_load(2))
  show ?thesis using reachable_retried stale_load(1) a b retry_load(2) c by blast
qed

text \<open>
  Claim C2, amended. After \<open>load_model\<close> has returned a model for a pair, and after any
  further calls of \<open>load_model\<close>, \<open>predict\<close> and \<open>get_model_path\<close> on the same engine, a
  second \<open>load_model\<close> for the pair returns the same object and leaves the engine as it
  is: no path is tested, no file is read and no architecture is constructed. The call
  that returned the model read the weight file of the pair at most once, and from then
  on the file is not read again. The loads that failed before it are not bounded: each
  of them that came as far as the file read it once.
\<close>

theorem load_model_twice_same:
  assumes "load_model wd s model_name config = (Inr m, s1)"
  shows "load_model wd' (run_calls s1 calls) model_name config = (Inr m, run_calls s1 calls)
       \<and> (\<forall>filename. map_of MODEL_FILENAME_MAP model_name = Some filename \<longrightarrow>
            count_list (io_log (run_calls s1 calls)) (TorchLoad (models_dir s @ [config, filename]))
              \<le> count_list (io_log s) (TorchLoad (models_dir s @ [config, filename])) + 1
          \<and> count_list (io_log (run_calls s1 calls)) (TorchLoad (models_dir s @ [config, filename]))
              = count_list (io_log s1) (TorchLoad (models_dir s @ [config, filename])))"
proof (intro conjI allI impI)
  have c1: "loaded_models s1 (cache_key_of model_name config) = Some m"
    using load_model_success_cached[OF assms] .
  show "load_model wd' (run_calls s1 calls) model_name config = (Inr m, run_calls s1 calls)"
    using run_calls_keeps_entry[OF c1, of calls] by (rule load_model_cached)
  fix filename assume f: "map_of MODEL_FILENAME_MAP model_name = Some filename"
  have s1: "s1 = snd (load_model wd s model_name config)" using assms by simp
  have d: "models_dir s1 = models_dir s" unfolding s1 by (rule load_model_fields)
  have "count_list (io_log s1) (TorchLoad (models_dir s @ [config, filename]))
          \<le> count_list (io_log s) (TorchLoad (models_dir s @ [config, filename])) + 1"
    unfolding s1 using load_model_reads[of wd s model_name config "models_dir s @ [config, filename]"]
    by auto
  then show "count_list (io_log (run_calls s1 calls)) (TorchLoad (models_dir s @ [config, filename]))
              \<le> count_list (io_log s) (TorchLoad (models_dir s @ [config, filename])) + 1"
    using run_calls_keeps[OF c1 f, of calls] d by simp
  show "count_list (io_log (run_calls s1 calls)) (TorchLoad (models_dir s @ [config, filename]))
              = count_list (io_log s1) (TorchLoad (models_dir s @ [config, filename]))"
    using run_calls_keeps[OF c1 f, of calls] d by simp
qed

theorem load_model_twice_same_witness:
  "load_model demo_world demo_engine ''densenet121'' ''config1'' = (Inr demo_model, cached_engine)
   \<and> load_model offline_world
       (run_calls cached_engine
          [CallLoad demo_world ''densenet121'' ''config2'', CallPath offline_world ''densenet121'' ''config1''])
       ''densenet121'' ''config1''
     = (Inr demo_model,
        run_calls cached_engine
          [CallLoad demo_world ''densenet121'' ''config2'', CallPath offline_world ''densenet121'' ''config1''])
   \<and> count_list (io_log (run_calls cached_engine
          [CallLoad demo_world ''densenet121'' ''config2'', CallPath offline_world ''densenet121'' ''config1'']))
        (TorchLoad [''models'', ''config1'', ''densenet121.pth'']) \<le> 1"
  using demo_load densenet_filename
    load_model_twice_same[OF demo_load, of offline_world
      "[CallLoad demo_world ''densenet121'' ''config2'', CallPath offline_world ''densenet121'' ''config1'']"]
  by (simp add: demo_engine_fields)

text \<open>
  Claim C6. When \<open>load_model\<close> reads a weight blob, the one state dict it applies to
  the architecture is the field \<open>model_state_dict\<close> if the blob is a mapping with that
  key, else the field \<open>state_dict\<close> if it is a mapping with that key, else the blob
  itself.
\<close>

theorem checkpoint_normalised:
  assumes "loaded_models s (cache_key_of model_name config) = None"
    and "valid_pair model_name config"
    and "map_of MODEL_FILENAME_MAP model_name = Some filename"
    and "map_of CONFIG_SETTINGS config = Some cfg"
    and "Path_exists wd (models_dir s @ [config, filename]) = Inr True"
    and "construct_error wd model_name (num_classes s) (dropout s) (image_size cfg) = None"
    and "torch_load wd (models_dir s @ [config, filename]) (device s) = Inr blob"
  shows "\<exists>applied.
      io_log (snd (load_model wd s model_name config)) =
        io_log s @ [PathExists (models_dir s @ [config, filename]),
                    Construct model_name (next_obj s),
                    TorchLoad (models_dir s @ [config, filename]),
                    LoadStateDict (next_obj s) applied]
    \<and> (\<forall>m. fst (load_model wd s model_name config) = Inr m \<longrightarrow>
          obj_id m = next_obj s \<and> state m = Some applied)
    \<and> (\<forall>e. state_dict_error wd
               \<lparr>obj_id = next_obj s, arch = model_name, model_num_classes = num_classes s,
                model_dropout = dropout s, model_img_size = image_size cfg, state = None,
                placed_on = None, training = True\<rparr> applied = Some e
             \<longrightarrow> fst (load_model wd s model_name config) = Inl e)
    \<and> applied = normalize_checkpoint blob
    \<and> (\<forall>d. blob = PyDict d \<and> py_in ''model_state_dict'' d
             \<longrightarrow> py_getitem d ''model_state_dict'' = Inr applied)
    \<and> (\<forall>d. blob = PyDict d \<and> \<not> py_in ''model_state_dict'' d \<and> py_in ''state_dict'' d
             \<longrightarrow> py_getitem d ''state_dict'' = Inr applied)
    \<and> ((\<forall>d. blob = PyDict d \<longrightarrow> \<not> py_in ''model_state_dict'' d \<and> \<not> py_in ''state_dict'' d)
             \<longrightarrow> applied = blob)"
proof -
  have mk: "model_name \<in> set models_dict_keys"
    using assms(3) by (auto simp: MODEL_FILENAME_MAP_def models_dict_keys_def split: if_splits)
  have n1: "\<And>d. blob = PyDict d \<and> py_in ''model_state_dict'' d
             \<longrightarrow> py_getitem d ''model_state_dict'' = Inr (normalize_checkpoint blob)"
    by (auto simp: normalize_checkpoint_def py_in_map_of py_getitem_def)
  have n2: "\<And>d. blob = PyDict d \<and> \<not> py_in ''model_state_dict'' d \<and> py_in ''state_dict'' d
             \<longrightarrow> py_getitem d ''state_dict'' = Inr (normalize_checkpoint blob)"
    by (auto simp: normalize_checkpoint_def py_in_map_of py_getitem_def)
  have n3: "(\<forall>d. blob = PyDict d \<longrightarrow> \<not> py_in ''model_state_dict'' d \<and> \<not> py_in ''state_dict'' d)
             \<longrightarrow> normalize_checkpoint blob = blob"
    by (cases blob) (auto simp: normalize_checkpoint_def py_in_map_of)
  have l: "io_log (snd (load_model wd s model_name config)) =
        io_log s @ [PathExists (models_dir s @ [config, filename]),
                    Construct model_name (next_obj s),
                    TorchLoad (models_dir s @ [config, filename]),
                    LoadStateDict (next_obj s) (normalize_checkpoint blob)]"
    unfolding load_model_uncached[OF assms(1-4)] using assms(5-7) mk
    by (simp add: Let_def get_model_def split: option.splits)
  have m: "\<forall>m. fst (load_model wd s model_name config) = Inr m \<longrightarrow>
          obj_id m = next_obj s \<and> state m = Some (normalize_checkpoint blob)"
    unfolding load_model_uncached[OF assms(1-4)] using assms(5-7) mk
    by (auto simp: Let_def get_model_def split: option.splits)
  have e: "\<forall>e. state_dict_error wd
               \<lparr>obj_id = next_obj s, arch = model_name, model_num_classes = num_classes s,
                model_dropout = dropout s, model_img_size = image_size cfg, state = None,
                placed_on = None, training = True\<rparr> (normalize_checkpoint blob) = Some e
             \<longrightarrow> fst (load_model wd s model_name config) = Inl e"
    unfolding load_model_uncached[OF assms(1-4)] using assms(5-7) mk
    by (auto simp: Let_def get_model_def split: option.splits)
  show ?thesis
    by (rule exI[of _ "normalize_checkpoint blob"]) (use l m e n1 n2 n3 in blast)
qed

theorem checkpoint_normalised_witness:
  "loaded_models demo_engine (cache_key_of ''densenet121'' ''config1'') = None
   \<and> valid_pair ''densenet121'' ''config1''
   \<and> Path_exists demo_world (models_dir demo_engine @ [''config1'', ''densenet121.pth''])
       = Inr True
   \<and> torch_load demo_world (models_dir demo_engine @ [''config1'', ''densenet121.pth''])
        (device demo_engine) = Inr demo_checkpoint
   \<and> io_log (snd (load_model demo_world demo_engine ''densenet121'' ''config1'')) =
        [PathExists [''models'', ''config1'', ''densenet121.pth''],
         Construct ''densenet121'' 0,
         TorchLoad [''models'', ''config1'', ''densenet121.pth''],
         LoadStateDict 0 demo_state_dict]"
proof -
  have h1: "loaded_models demo_engine (cache_key_of ''densenet121'' ''config1'') = None"
    by (simp add: demo_engine_fields)
  have h5: "Path_exists demo_world (models_dir demo_engine @ [''config1'', ''densenet121.pth''])
      = Inr True"
    by (simp add: demo_engine_fields demo_world_def Path_exists_def)
  have h6: "construct_error demo_world ''densenet121'' (num_classes demo_engine)
      (dropout demo_engine)
      (image_size \<lparr>image_size = 224, learning_rate = 1 / 10000, loss = ''focal'',
                   model_type = ''CNN''\<rparr>) = None"
    by (simp add: demo_world_def)
  have h7: "torch_load demo_world (models_dir demo_engine @ [''config1'', ''densenet121.pth''])
        (device demo_engine) = Inr demo_checkpoint"
    by (simp add: demo_engine_fields demo_world_def)
  from checkpoint_normalised[OF h1 valid_densenet_config1 densenet_filename config1_settings h5 h6 h7]
  have "io_log (snd (load_model demo_world demo_engine ''densenet121'' ''config1'')) =
        [PathExists [''models'', ''config1'', ''densenet121.pth''],
         Construct ''densenet121'' 0,
         TorchLoad [''models'', ''config1'', ''densenet121.pth''],
         LoadStateDict 0 demo_state_dict]"
    by (auto simp: demo_engine_fields demo_normalize)
  then show ?thesis using h1 valid_densenet_config1 h5 h7 by blast
qed

text \<open>
  Claim C8. With no cache entry for the key, \<open>load_model\<close> for densenet121 and config3
  raises the incompatibility error, whose message lists config1, config2 and config4 as
  the compatible configs, and the engine is unchanged: no path was tested and no file
  read. \<open>predict\<close> turns the error into a failure with that message.
\<close>

theorem densenet121_config3_rejected:
  assumes "loaded_models s (cache_key_of ''densenet121'' ''config3'') = None"
  shows "load_model wd s ''densenet121'' ''config3'' =
           (Inl (ValueError (incompatible_msg ''densenet121'' ''config3''
                   [''config1'', ''config2'', ''config4''])), s)
       \<and> incompatible_msg ''densenet121'' ''config3'' [''config1'', ''config2'', ''config4''] =
           ''Model 'densenet121' is not compatible with 'config3'.\<newline>Compatible configs for densenet121: ['config1', 'config2', 'config4']\<newline>Config types:\<newline>  - config1: CNN models, 224x224, Focal Loss\<newline>  - config2: CNN models, 320x320, Focal Loss\<newline>  - config3: CNN-Transformer models, 224x224, Focal Loss\<newline>  - config4: All models, 224x224, Asymmetric Loss''
       \<and> io_log (snd (load_model wd s ''densenet121'' ''config3'')) = io_log s
       \<and> next_obj (snd (load_model wd s ''densenet121'' ''config3'')) = next_obj s
       \<and> predict wd cv s image_input ''densenet121'' ''config3'' diseases =
           (Inr \<lparr>success = False,
                 error = Some (incompatible_msg ''densenet121'' ''config3''
                                 [''config1'', ''config2'', ''config4'']),
                 results = [], processing_time = 0, out_model_name = ''densenet121'',
                 out_config = ''config3'', out_image_size = 224, out_device = device s\<rparr>, s)"
  using densenet_config3_load[OF assms, of wd] densenet_config3_msg
  by (simp add: predict_def Let_def CONFIG_SETTINGS_def)

theorem densenet121_config3_rejected_witness:
  "loaded_models demo_engine (cache_key_of ''densenet121'' ''config3'') = None
   \<and> load_model demo_world demo_engine ''densenet121'' ''config3'' =
       (Inl (ValueError (incompatible_msg ''densenet121'' ''config3''
               [''config1'', ''config2'', ''config4''])), demo_engine)
   \<and> io_log (snd (load_model demo_world demo_engine ''densenet121'' ''config3'')) = []"
proof -
  have h: "loaded_models demo_engine (cache_key_of ''densenet121'' ''config3'') = None"
    by (simp add: demo_engine_def ModelInference_def)
  have l: "io_log demo_engine = []" by (simp add: demo_engine_def ModelInference_def)
  show ?thesis
    using h l densenet121_config3_rejected[OF h, of demo_world demo_cv2 "ImageBytes [1]" DISEASES]
    by simp
qed

text \<open>
  Claim C10. In every reachable state of an engine each key of \<open>loaded_models\<close> is the
  key of a pair whose config is in \<open>CONFIG_SETTINGS\<close>, whose model is in
  \<open>MODEL_FILENAME_MAP\<close> and for which \<open>check_compatibility\<close> is true. So the look-up in
  the cache, although it comes before the validation, never serves an unregistered or
  incompatible pair: for such a pair \<open>load_model\<close> raises \<open>ValueError\<close>.
\<close>

theorem cache_keys_valid:
  assumes "reachable s"
  shows "(\<forall>key m. loaded_models s key = Some m \<longrightarrow>
            (\<exists>model_name config. key = cache_key_of model_name config
               \<and> py_in config CONFIG_SETTINGS \<and> py_in model_name MODEL_FILENAME_MAP
               \<and> check_compatibility model_name config = Inr True))
       \<and> (\<forall>wd model_name config.
            \<not> (py_in config CONFIG_SETTINGS \<and> py_in model_name MODEL_FILENAME_MAP
               \<and> check_compatibility model_name config = Inr True) \<longrightarrow>
            loaded_models s (cache_key_of model_name config) = None
            \<and> (\<exists>msg. load_model wd s model_name config = (Inl (ValueError msg), s)))"
proof -
  have ok: "cache_ok s" using assms by (rule reachable_cache_ok)
  show ?thesis
  proof (intro conjI allI impI)
    fix key m assume "loaded_models s key = Some m"
    with ok show "\<exists>model_name config. key = cache_key_of model_name config
               \<and> py_in config CONFIG_SETTINGS \<and> py_in model_name MODEL_FILENAME_MAP
               \<and> check_compatibility model_name config = Inr True"
      unfolding cache_ok_def valid_pair_def by blast
  next
    fix wd model_name config
    assume "\<not> (py_in config CONFIG_SETTINGS \<and> py_in model_name MODEL_FILENAME_MAP
               \<and> check_compatibility model_name config = Inr True)"
    then have nv: "\<not> valid_pair model_name config" by (simp add: valid_pair_def)
    show "loaded_models s (cache_key_of model_name config) = None"
      using cache_ok_invalid_uncached[OF ok nv] .
    then show "\<exists>msg. load_model wd s model_name config = (Inl (ValueError msg), s)"
      using load_model_invalid nv by blast
  qed
qed

theorem cache_keys_valid_witness:
  "reachable cached_engine
   \<and> loaded_models cached_engine (cache_key_of ''densenet121'' ''config1'') = Some demo_model
   \<and> (\<exists>model_name config. cache_key_of ''densenet121'' ''config1'' = cache_key_of model_name config
         \<and> check_compatibility model_name config = Inr True)
   \<and> \<not> (py_in ''config3'' CONFIG_SETTINGS \<and> py_in ''densenet121'' MODEL_FILENAME_MAP
         \<and> check_compatibility ''densenet121'' ''config3'' = Inr True)
   \<and> loaded_models cached_engine (cache_key_of ''densenet121'' ''config3'') = None
   \<and> (\<exists>msg. load_model offline_world cached_engine ''densenet121'' ''config3''
               = (Inl (ValueError msg), cached_engine))"
proof -
  note t = cache_keys_valid[OF reachable_cached]
  have n: "\<not> (py_in ''config3'' CONFIG_SETTINGS \<and> py_in ''densenet121'' MODEL_FILENAME_MAP
         \<and> check_compatibility ''densenet121'' ''config3'' = Inr True)"
    by (simp add: check_compatibility_def py_in_def dict_keys_def py_getitem_def
        MODEL_CONFIG_COMPATIBILITY_def)
  from t[THEN conjunct1, rule_format, OF cached_engine_fields(1)]
  have a: "\<exists>model_name config. cache_key_of ''densenet121'' ''config1'' = cache_key_of model_name config
         \<and> check_compatibility model_name config = Inr True" by blast
  from t[THEN conjunct2, rule_format, OF n, of offline_world]
  have b: "loaded_models cached_engine (cache_key_of ''densenet121'' ''config3'') = None
   \<and> (\<exists>msg. load_model offline_world cached_engine ''densenet121'' ''config3''
               = (Inl (ValueError msg), cached_engine))" .
  show ?thesis using reachable_cached cached_engine_fields(1) a n b by blast
qed

section \<open>The stages of predict\<close>

lemma sigmoid_unit: "0 \<le> sigmoid x" "sigmoid x \<le> 1"
proof -
  have e: "0 < exp (- x)" by simp
  then have pos: "0 < 1 + exp (- x)" by linarith
  show "0 \<le> sigmoid x" using pos by (simp add: sigmoid_def less_imp_le)
  show "sigmoid x \<le> 1" using e by (simp add: sigmoid_def pos_divide_le_eq[OF pos] less_imp_le)
qed

lemma predict_success_parts:
  assumes "predict wd cv s image_input model_name config diseases = (Inr out, s')"
    and "success out"
  shows "\<exists>m t row rest.
      fst (load_model wd s model_name config) = Inr m
    \<and> snd (load_model wd s model_name config) = s'
    \<and> forward wd m t = Inr (row # rest)
    \<and> results out = map (\<lambda>(d, x). \<lparr>disease = d, prob = sigmoid x\<rparr>) (zip diseases row)"
  using assms unfolding predict_def
  by (fastforce simp: Let_def zip_map2 case_prod_unfold comp_def
      split: prod.splits sum.splits option.splits list.splits if_splits)

lemma predict_success:
  assumes "predict wd cv s image_input model_name config diseases = (Inr out, s')"
    and "success out"
  shows "\<exists>m t row rest.
      load_model wd s model_name config = (Inr m, s')
    \<and> forward wd m t = Inr (row # rest)
    \<and> results out = map (\<lambda>(d, x). \<lparr>disease = d, prob = sigmoid x\<rparr>) (zip diseases row)"
proof -
  from predict_success_parts[OF assms] obtain m t row rest where
    "fst (load_model wd s model_name config) = Inr m"
    "snd (load_model wd s model_name config) = s'"
    "forward wd m t = Inr (row # rest)"
    "results out = map (\<lambda>(d, x). \<lparr>disease = d, prob = sigmoid x\<rparr>) (zip diseases row)"
    by blast
  moreover from this(1,2) have "load_model wd s model_name config = (Inr m, s')"
    by (simp add: prod_eq_iff)
  ultimately show ?thesis by blast
qed

lemma predict_after_load:
  assumes "load_model wd s model_name config = (Inr m, s1)"
    and "map_of CONFIG_SETTINGS config = Some cfg"
    and "preprocess_image_from_bytes cv bs (image_size cfg) ''reflect'' = Inr t"
    and "to_error wd (device s) = None"
    and "forward wd m t = Inr (row # rest)"
  shows "predict wd cv s (ImageBytes bs) model_name config diseases =
     (Inr \<lparr>success = True, error = None,
           results = map (\<lambda>(d, p). \<lparr>disease = d, prob = p\<rparr>) (zip diseases (map sigmoid row)),
           processing_time = time_time wd 1 - time_time wd 0,
           out_model_name = model_name, out_config = config,
           out_image_size = image_size cfg, out_device = device s\<rparr>, s1)"
  using assms unfolding predict_def
  by (simp add: Let_def py_getitem_def)

lemma demo_gray_1x1:
  "to_grayscale demo_cv2 \<lparr>shape = [1, 1], elem = (\<lambda>idx. 0)\<rparr>
     = Inr (as_gray \<lparr>shape = [1, 1], elem = (\<lambda>idx. 0)\<rparr>)"
  by (simp add: to_grayscale_def)

lemma demo_preprocess:
  "\<exists>t. preprocess_image_from_bytes demo_cv2 [1] 224 ''reflect'' = Inr t"
proof -
  define g where "g = as_gray \<lparr>shape = [1, 1], elem = (\<lambda>idx. 0 :: uint8)\<rparr>"
  have "1 \<le> height g" "int (height g) \<le> INT_MAX" "1 \<le> width g" "int (width g) \<le> INT_MAX"
    "(1::int) \<le> 224" "224 \<le> INT_MAX"
    by (simp_all add: g_def as_gray_def INT_MAX_def)
  from letterbox_general[OF this, of demo_cv2] obtain padded where
    "letterbox demo_cv2 g 224 ''reflect'' = Inr padded" by blast
  then show ?thesis
    using demo_gray_1x1
    by (simp add: preprocess_image_from_bytes_def cv2_imdecode_def demo_cv2_def
        preprocess_decoded_def g_def)
qed

lemma valid_densenet_config4: "valid_pair ''densenet121'' ''config4''"
  by (simp add: valid_pair_def py_in_def dict_keys_def CONFIG_SETTINGS_def
      MODEL_FILENAME_MAP_def check_compatibility_def py_getitem_def
      MODEL_CONFIG_COMPATIBILITY_def)

lemma demo_predict:
  assumes "load_model wd s ''densenet121'' ''config1'' = (Inr m, s1)"
    and "to_error wd = to_error demo_world" "forward wd = forward demo_world"
  shows "\<exists>out. predict wd demo_cv2 s (ImageBytes [1]) ''densenet121'' ''config1'' diseases
             = (Inr out, s1)
           \<and> success out
           \<and> results out = map (\<lambda>(d, p). \<lparr>disease = d, prob = p\<rparr>)
                              (zip diseases (map sigmoid [0, 0, 0, 0, 0, 0]))"
proof -
  from demo_preprocess obtain t where
    t: "preprocess_image_from_bytes demo_cv2 [1]
          (image_size \<lparr>image_size = 224, learning_rate = 1 / 10000, loss = ''focal'',
                       model_type = ''CNN''\<rparr>) ''reflect'' = Inr t"
    by auto
  have e: "to_error wd (device s) = None" using assms(2) by (simp add: demo_world_def)
  have f: "forward wd m t = Inr ([0, 0, 0, 0, 0, 0] # [])"
    using assms(3) by (simp add: demo_world_def)
  show ?thesis
    unfolding predict_after_load[OF assms(1) config1_settings t e f] by simp
qed

section \<open>Claims about predict\<close>

text \<open>
  Claim C1. \<open>predict\<close> is claimed to turn every failure of the load stage into a failure
  outcome, also when the weight file is there and its parameters do not fit the
  architecture. The handler of the load stage catches \<open>ValueError\<close> and
  \<open>FileNotFoundError\<close> only: with the weight file of densenet121 under config2, whose
  parameters belong to another architecture, \<open>load_state_dict\<close> raises \<open>RuntimeError\<close>
  and \<open>predict\<close> raises it too, returning no outcome.
\<close>

theorem weight_mismatch_escapes_predict:
  "valid_pair ''densenet121'' ''config2''
   \<and> Path_exists demo_world (models_dir demo_engine @ [''config2'', ''densenet121.pth''])
       = Inr True
   \<and> torch_load demo_world (models_dir demo_engine @ [''config2'', ''densenet121.pth''])
        (device demo_engine) = Inr (PyDict [(''fc.weight'', PyTensor [1000, 2048])])
   \<and> fst (predict demo_world demo_cv2 demo_engine (ImageBytes [1]) ''densenet121'' ''config2''
            DISEASES)
       = Inl (RuntimeError ''Error(s) in loading state_dict'')"
proof -
  have u: "loaded_models demo_engine (cache_key_of ''densenet121'' ''config2'') = None"
    by (simp add: demo_engine_fields)
  have "fst (load_model demo_world demo_engine ''densenet121'' ''config2'')
          = Inl (RuntimeError ''Error(s) in loading state_dict'')"
    unfolding load_model_uncached[OF u valid_densenet_config2 densenet_filename config2_settings]
    by (simp add: Let_def demo_engine_fields demo_world_def Path_exists_def get_model_def
        models_dict_keys_def normalize_checkpoint_def demo_state_dict_def)
  then obtain s1 where l: "load_model demo_world demo_engine ''densenet121'' ''config2''
      = (Inl (RuntimeError ''Error(s) in loading state_dict''), s1)"
    by (cases "load_model demo_world demo_engine ''densenet121'' ''config2''") simp
  have "fst (predict demo_world demo_cv2 demo_engine (ImageBytes [1]) ''densenet121''
      ''config2'' DISEASES) = Inl (RuntimeError ''Error(s) in loading state_dict'')"
    unfolding predict_def l by (simp add: Let_def)
  then show ?thesis
    using valid_densenet_config2
    by (simp add: demo_engine_fields demo_world_def Path_exists_def)
qed

text \<open>
  Claim C4 as stated fails: with seven labels and a model of six classes a successful
  \<open>predict\<close> returns six results, not seven.
\<close>

theorem results_shorter_than_labels:
  "map_sum id success
     (fst (predict demo_world demo_cv2 demo_engine (ImageBytes [1]) ''densenet121'' ''config1''
             (DISEASES @ [''Fracture''])))
     = Inr True
   \<and> map_sum id (length \<circ> results)
       (fst (predict demo_world demo_cv2 demo_engine (ImageBytes [1]) ''densenet121'' ''config1''
               (DISEASES @ [''Fracture''])))
     = Inr 6
   \<and> length (DISEASES @ [''Fracture'']) = 7"
proof -
  from demo_predict[OF demo_load refl refl, of "DISEASES @ [''Fracture'']"]
  obtain out where
    p: "predict demo_world demo_cv2 demo_engine (ImageBytes [1]) ''densenet121'' ''config1''
          (DISEASES @ [''Fracture'']) = (Inr out, cached_engine)"
    and s: "success out"
    and r: "results out = map (\<lambda>(d, p). \<lparr>disease = d, prob = p\<rparr>)
              (zip (DISEASES @ [''Fracture'']) (map sigmoid [0, 0, 0, 0, 0, 0]))"
    by blast
  have "length (results out) = 6" unfolding r by (simp add: DISEASES_def)
  then show ?thesis using p s by (simp add: DISEASES_def)
qed

text \<open>
  Claim C4, amended. The results of a successful \<open>predict\<close> pair the labels position by
  position with the sigmoid of the first row of logits and stop at the shorter of the
  two: there are as many results as the smaller of the number of labels and the number
  of logits, hence as many as labels when the labels are no more than the logits, and
  every probability lies between 0 and 1. Logits are exact reals here.
\<close>

theorem results_zip_sigmoid:
  assumes "predict wd cv s image_input model_name config diseases = (Inr out, s')"
    and "success out"
  shows "\<exists>m t row rest.
      load_model wd s model_name config = (Inr m, s')
    \<and> forward wd m t = Inr (row # rest)
    \<and> results out = map (\<lambda>(d, x). \<lparr>disease = d, prob = sigmoid x\<rparr>) (zip diseases row)
    \<and> length (results out) = min (length diseases) (length row)
    \<and> (length diseases \<le> length row \<longrightarrow> length (results out) = length diseases)
    \<and> (\<forall>i < length (results out).
          disease (results out ! i) = diseases ! i \<and> prob (results out ! i) = sigmoid (row ! i))
    \<and> (\<forall>r \<in> set (results out). 0 \<le> prob r \<and> prob r \<le> 1)"
proof -
  from predict_success[OF assms] obtain m t row rest where
    l: "load_model wd s model_name config = (Inr m, s')"
    and f: "forward wd m t = Inr (row # rest)"
    and r: "results out = map (\<lambda>(d, x). \<lparr>disease = d, prob = sigmoid x\<rparr>) (zip diseases row)"
    by blast
  have n: "length (results out) = min (length diseases) (length row)" unfolding r by simp
  have i: "\<forall>i < length (results out).
          disease (results out ! i) = diseases ! i \<and> prob (results out ! i) = sigmoid (row ! i)"
    unfolding r by simp
  have b: "\<forall>r \<in> set (results out). 0 \<le> prob r \<and> prob r \<le> 1"
    unfolding r using sigmoid_unit by auto
  show ?thesis using l f r n i b by (intro exI conjI) (simp_all only:, simp_all)
qed

theorem results_zip_sigmoid_witness:
  "\<exists>out. predict demo_world demo_cv2 demo_engine (ImageBytes [1]) ''densenet121'' ''config1''
            DISEASES = (Inr out, cached_engine)
         \<and> success out \<and> length DISEASES \<le> 6
         \<and> length (results out) = length DISEASES
         \<and> (\<forall>r \<in> set (results out). 0 \<le> prob r \<and> prob r \<le> 1)"
proof -
  from demo_predict[OF demo_load refl refl, of DISEASES]
  obtain out where
    p: "predict demo_world demo_cv2 demo_engine (ImageBytes [1]) ''densenet121'' ''config1''
          DISEASES = (Inr out, cached_engine)"
    and s: "success out"
    by blast
  from results_zip_sigmoid[OF p s] obtain m t row rest where
    f: "forward demo_world m t = Inr (row # rest)"
    and n': "length DISEASES \<le> length row \<longrightarrow> length (results out) = length DISEASES"
    and b: "\<forall>r \<in> set (results out). 0 \<le> prob r \<and> prob r \<le> 1"
    by blast
  from f have "length row = 6" by (auto simp: demo_world_def)
  then show ?thesis using p s n' b by (auto simp: DISEASES_def)
qed

text \<open>
  Claim C7 as stated fails, in two ways. Once densenet121 under config1 is in the cache
  and its weight file has been removed, \<open>predict\<close> for the pair still succeeds: the cache
  is looked at before the file system. And on a new engine, when the file is absent and
  its directory may not be searched, the test of the path raises \<open>PermissionError\<close>,
  which the handler of the load stage does not catch: \<open>predict\<close> raises it and returns
  no outcome.
\<close>

theorem absent_weights_without_failure:
  "valid_pair ''densenet121'' ''config1''
   \<and> map_of MODEL_FILENAME_MAP ''densenet121'' = Some ''densenet121.pth''
   \<and> \<not> on_disk offline_world (models_dir cached_engine @ [''config1'', ''densenet121.pth''])
   \<and> reachable cached_engine
   \<and> map_sum id success
       (fst (predict offline_world demo_cv2 cached_engine (ImageBytes [1]) ''densenet121''
               ''config1'' DISEASES))
     = Inr True
   \<and> \<not> on_disk locked_world (models_dir demo_engine @ [''config1'', ''densenet121.pth''])
   \<and> loaded_models demo_engine (cache_key_of ''densenet121'' ''config1'') = None
   \<and> fst (predict locked_world demo_cv2 demo_engine (ImageBytes [1]) ''densenet121''
            ''config1'' DISEASES)
       = Inl (PermissionError ''[Errno 13] Permission denied'')"
proof -
  have l: "load_model offline_world cached_engine ''densenet121'' ''config1''
             = (Inr demo_model, cached_engine)"
    using cached_engine_fields(1) by (rule load_model_cached)
  have "to_error offline_world = to_error demo_world" "forward offline_world = forward demo_world"
    by (simp_all add: offline_world_def)
  from demo_predict[OF l this, of DISEASES]
  have a: "map_sum id success
       (fst (predict offline_world demo_cv2 cached_engine (ImageBytes [1]) ''densenet121''
               ''config1'' DISEASES)) = Inr True"
    by auto
  have b: "\<not> on_disk offline_world
      (models_dir cached_engine @ [''config1'', ''densenet121.pth''])"
    by (simp add: offline_world_def)
  have c: "\<not> on_disk locked_world
      (models_dir demo_engine @ [''config1'', ''densenet121.pth''])"
    by (simp add: locked_world_def offline_world_def)
  have u: "loaded_models demo_engine (cache_key_of ''densenet121'' ''config1'') = None"
    by (simp add: demo_engine_fields)
  have "fst (load_model locked_world demo_engine ''densenet121'' ''config1'')
          = Inl (PermissionError ''[Errno 13] Permission denied'')"
    unfolding load_model_uncached[OF u valid_densenet_config1 densenet_filename config1_settings]
    by (simp add: Let_def locked_world_def offline_world_def Path_exists_def)
  then obtain s1 where k: "load_model locked_world demo_engine ''densenet121'' ''config1''
      = (Inl (PermissionError ''[Errno 13] Permission denied''), s1)"
    by (cases "load_model locked_world demo_engine ''densenet121'' ''config1''") simp
  have d: "fst (predict locked_world demo_cv2 demo_engine (ImageBytes [1]) ''densenet121''
      ''config1'' DISEASES) = Inl (PermissionError ''[Errno 13] Permission denied'')"
    unfolding predict_def k by (simp add: Let_def)
  show ?thesis
    using valid_densenet_config1 densenet_filename reachable_cached a b c u d by blast
qed

text \<open>
  Claim C7, amended. For a registered and compatible pair that is not in the cache and
  whose weight file is absent, when the test of its path meets no error of the operating
  system, \<open>predict\<close> returns a failure with processing time 0 and the message that names
  the missing path; the only access to the file system is the test of that path.
\<close>

theorem missing_weights_failure:
  assumes "valid_pair model_name config"
    and "map_of MODEL_FILENAME_MAP model_name = Some filename"
    and "\<not> on_disk wd (models_dir s @ [config, filename])"
    and "stat_error wd (models_dir s @ [config, filename]) = None"
    and "loaded_models s (cache_key_of model_name config) = None"
  shows "\<exists>out s1.
      predict wd cv s image_input model_name config diseases = (Inr out, s1)
    \<and> \<not> success out \<and> processing_time out = 0 \<and> results out = []
    \<and> error out =
        Some (''Model file not found: '' @ path_str (models_dir s @ [config, filename])
              @ ''\<newline>''
              @ ''Please ensure the model is trained and saved in the correct location.'')
    \<and> out_model_name out = model_name \<and> out_config out = config
    \<and> out_device out = device s
    \<and> loaded_models s1 = loaded_models s
    \<and> io_log s1 = io_log s @ [PathExists (models_dir s @ [config, filename])]"
proof -
  from valid_pair_lookups[OF assms(1)] assms(2) obtain cfg where
    c: "map_of CONFIG_SETTINGS config = Some cfg" by auto
  have l: "load_model wd s model_name config =
      (Inl (FileNotFoundError
              (''Model file not found: '' @ path_str (models_dir s @ [config, filename])
               @ ''\<newline>''
               @ ''Please ensure the model is trained and saved in the correct location.'')),
       log_event (PathExists (models_dir s @ [config, filename])) s)"
    unfolding load_model_uncached[OF assms(5) assms(1) assms(2) c] using assms(3,4)
    by (simp add: Let_def Path_exists_def)
  show ?thesis unfolding predict_def l by (simp add: Let_def)
qed

theorem missing_weights_failure_witness:
  "valid_pair ''densenet121'' ''config4''
   \<and> \<not> on_disk demo_world (models_dir demo_engine @ [''config4'', ''densenet121.pth''])
   \<and> stat_error demo_world (models_dir demo_engine @ [''config4'', ''densenet121.pth'']) = None
   \<and> loaded_models demo_engine (cache_key_of ''densenet121'' ''config4'') = None
   \<and> (\<exists>out s1. predict demo_world demo_cv2 demo_engine (ImageBytes [1]) ''densenet121''
                  ''config4'' DISEASES = (Inr out, s1)
         \<and> \<not> success out \<and> processing_time out = 0
         \<and> error out = Some (''Model file not found: models/config4/densenet121.pth\<newline>Please ensure the model is trained and saved in the correct location.''))"
proof -
  have a: "\<not> on_disk demo_world (models_dir demo_engine @ [''config4'', ''densenet121.pth''])"
    by (simp add: demo_engine_fields demo_world_def)
  have a': "stat_error demo_world (models_dir demo_engine @ [''config4'', ''densenet121.pth''])
      = None"
    by (simp add: demo_world_def)
  have b: "loaded_models demo_engine (cache_key_of ''densenet121'' ''config4'') = None"
    by (simp add: demo_engine_fields)
  from missing_weights_failure[OF valid_densenet_config4 densenet_filename a a' b,
      of demo_cv2 "ImageBytes [1]" DISEASES]
  have "\<exists>out s1. predict demo_world demo_cv2 demo_engine (ImageBytes [1]) ''densenet121''
                  ''config4'' DISEASES = (Inr out, s1)
         \<and> \<not> success out \<and> processing_time out = 0
         \<and> error out = Some (''Model file not found: models/config4/densenet121.pth\<newline>Please ensure the model is trained and saved in the correct location.'')"
    by (auto simp: demo_engine_fields path_str_def)
  then show ?thesis using valid_densenet_config4 a a' b by blast
qed

end
